theory Spec2Isabelle
  imports Complex_Main
begin

section \<open>JavaScript values and the object heap\<close>

text \<open>
  The converter of \<^verbatim>\<open>packages/viewer/src/modules/Converter.js\<close> works on decoded JSON
  data and mutates it in place (\<^verbatim>\<open>delete obj.vertices\<close>), so objects and arrays live in an
  explicit heap and a value refers to them by address. A number is a rational, \<^verbatim>\<open>NaN\<close> or
  one of the two infinities (the two zeros are one): the code compares numbers with the
  literals 0 and 1, hands them on, multiplies them once (\<^verbatim>\<open>v * conversionFactor\<close>, a
  product rounded to 64 bits) and stores them in 32 bits.
\<close>

type_synonym addr = nat

datatype jsval =
    Undefined
  | Null
  | Bool bool
  | Num rat
  | NaN
  | PosInfinity
  | NegInfinity
  | Str string
  | Ref addr

datatype hobj =
    Obj "(string \<times> jsval) list"
  | Arr "jsval list"

type_synonym heap = "addr \<Rightarrow> hobj"

datatype error =
    TypeError
  | MeshTypeNotSupported jsval
  | UnexpectedObjectUrlFormat
  | StoreError
  | Unmodelled

text \<open>\<^verbatim>\<open>typeof v === 'object'\<close>: true of objects, arrays and of \<^verbatim>\<open>null\<close>.\<close>

fun typeof_object :: "jsval \<Rightarrow> bool" where
  "typeof_object Null = True"
| "typeof_object (Ref a) = True"
| "typeof_object v = False"

text \<open>Truthiness (\<^verbatim>\<open>if ( v )\<close>, \<^verbatim>\<open>!v\<close>, \<^verbatim>\<open>a || b\<close>).\<close>

fun truthy :: "jsval \<Rightarrow> bool" where
  "truthy Undefined = False"
| "truthy Null = False"
| "truthy (Bool b) = b"
| "truthy (Num n) = (n \<noteq> 0)"
| "truthy NaN = False"
| "truthy PosInfinity = True"
| "truthy NegInfinity = True"
| "truthy (Str s) = (s \<noteq> [])"
| "truthy (Ref a) = True"

definition js_or :: "jsval \<Rightarrow> jsval \<Rightarrow> jsval" where
  "js_or a b = (if truthy a then a else b)"

definition lookup :: "(string \<times> jsval) list \<Rightarrow> string \<Rightarrow> jsval" where
  "lookup fs k = (case map_of fs k of None \<Rightarrow> Undefined | Some v \<Rightarrow> v)"

text \<open>
  \<^verbatim>\<open>v.k\<close> for the property names the converter reads (\<^verbatim>\<open>referencedId\<close>, \<^verbatim>\<open>data\<close>,
  \<^verbatim>\<open>speckle_type\<close>, \<^verbatim>\<open>units\<close>, \<^verbatim>\<open>vertices\<close>, ...): a TypeError on \<^verbatim>\<open>undefined\<close> and
  \<^verbatim>\<open>null\<close>, \<^verbatim>\<open>undefined\<close> on the other primitives and on arrays, the field of an object.
\<close>

definition get_prop :: "heap \<Rightarrow> jsval \<Rightarrow> string \<Rightarrow> error + jsval" where
  "get_prop h v k =
     (case v of
        Undefined \<Rightarrow> Inl TypeError
      | Null \<Rightarrow> Inl TypeError
      | Ref a \<Rightarrow> (case h a of Obj fs \<Rightarrow> Inr (lookup fs k) | Arr xs \<Rightarrow> Inr Undefined)
      | _ \<Rightarrow> Inr Undefined)"

text \<open>\<^verbatim>\<open>xs[i]\<close> on an array: \<^verbatim>\<open>undefined\<close> out of range.\<close>

definition elem_at :: "jsval list \<Rightarrow> nat \<Rightarrow> jsval" where
  "elem_at xs i = (if i < length xs then xs ! i else Undefined)"

section \<open>The face loop of the Mesh converter\<close>

text \<open>
  Lines 146-156 of Converter.js:
  \<^verbatim>\<open>
  let k = 0
  while ( k < faces.length ) {
    if ( faces[ k ] === 1 ) { // QUAD FACE
      indices.push( faces[ k + 1 ], faces[ k + 2 ], faces[ k + 3 ] )
      indices.push( faces[ k + 1 ], faces[ k + 3 ], faces[ k + 4 ] )
      k += 5
    } else if ( faces[ k ] === 0 ) { // TRIANGLE FACE
      indices.push( faces[ k + 1 ], faces[ k + 2 ], faces[ k + 3 ] )
      k += 4
    } else throw new Error( `Mesh type not supported. Face topology indicator: ${faces[k]}` )
  }
  \<close>
\<close>

function faces_loop :: "jsval list \<Rightarrow> nat \<Rightarrow> jsval list \<Rightarrow> error + jsval list" where
  "faces_loop faces k indices =
     (if k < length faces then
        (if elem_at faces k = Num 1 then
           faces_loop faces (k + 5)
             (indices @ [elem_at faces (k + 1), elem_at faces (k + 2), elem_at faces (k + 3)]
                      @ [elem_at faces (k + 1), elem_at faces (k + 3), elem_at faces (k + 4)])
         else if elem_at faces k = Num 0 then
           faces_loop faces (k + 4)
             (indices @ [elem_at faces (k + 1), elem_at faces (k + 2), elem_at faces (k + 3)])
         else Inl (MeshTypeNotSupported (elem_at faces k)))
      else Inr indices)"
  by pat_completeness auto
termination
  by (relation "measure (\<lambda>(faces, k, indices). length faces - k)") auto

declare faces_loop.simps [simp del]

text \<open>
  The decoding scheme in the specification's words: read a flag, then consume a fixed run
  of following values; flag 0 is one triangle, flag 1 is a quad split along the diagonal
  between its first and third value, any other flag is a decode error. A value missing at
  the end of a truncated buffer reads as \<^verbatim>\<open>undefined\<close>.
\<close>

type_synonym triangle = "jsval \<times> jsval \<times> jsval"

fun decode_spec :: "jsval list \<Rightarrow> error + triangle list" where
  "decode_spec [] = Inr []"
| "decode_spec (flag # rest) =
     (if flag = Num 0 then
        (case decode_spec (drop 3 rest) of
           Inl e \<Rightarrow> Inl e
         | Inr ts \<Rightarrow> Inr ((elem_at rest 0, elem_at rest 1, elem_at rest 2) # ts))
      else if flag = Num 1 then
        (case decode_spec (drop 4 rest) of
           Inl e \<Rightarrow> Inl e
         | Inr ts \<Rightarrow> Inr ((elem_at rest 0, elem_at rest 1, elem_at rest 2) # (elem_at rest 0, elem_at rest 2, elem_at rest 3) # ts))
      else Inl (MeshTypeNotSupported flag))"

fun flatten :: "triangle list \<Rightarrow> jsval list" where
  "flatten [] = []"
| "flatten ((a, b, c) # ts) = a # b # c # flatten ts"

section \<open>Worlds: the heap and the observable events\<close>

text \<open>
  The geometry the Mesh converter builds: the index list given to \<^verbatim>\<open>setIndex\<close> and the
  values that the \<^verbatim>\<open>position\<close> attribute holds, which are 32-bit floats. What THREE derives
  from them (normals, bounding sphere) is THREE's and is not modelled.
  \<^verbatim>\<open>ObjectWrapper\<close> pairs the geometry with the metadata object; its two fields are the
  ones the sources read (\<^verbatim>\<open>{ bufferGeometry }\<close> in the Brep converter, \<^verbatim>\<open>objectWrapper.meta\<close>
  in the loader).
\<close>

record buffer =
  index :: "jsval list"
  position :: "jsval list"

record wrapper =
  bufferGeometry :: buffer
  meta :: jsval

text \<open>
  What one task does to the outside is recorded as the list of its own events: a point
  lookup in the store, the invocation of a converter, the invocation of the per-conversion
  callback with the converter's result (\<open>None\<close> is \<^verbatim>\<open>undefined\<close>), and the start of a new
  task that nobody awaits, \<open>Spawn v\<close> for
  \<^verbatim>\<open>( async() => await this.traverseAndConvert( v, callback ) )()\<close>.
\<close>

datatype event =
    GetObject jsval
  | Invoke string jsval
  | Callback "wrapper option"
  | Spawn jsval

record world =
  heap :: heap
  trace :: "event list"

definition log :: "event \<Rightarrow> world \<Rightarrow> world" where
  "log ev w = w\<lparr>trace := trace w @ [ev]\<rparr>"

text \<open>
  The collaborators that are not in the sources at hand: the object loader's point lookup
  (\<^verbatim>\<open>objectLoader.getObject\<close>, which may reject; the objects it returns are objects of
  the heap, and the lookup itself changes none of them), \<^verbatim>\<open>getConversionFactor\<close> of the
  Units module, taken to return a value for whatever it is given, and the platform's
  conversion of a string or an object to a number (\<open>toNumber\<close>, which may read the
  heap). The calls into THREE are taken to return.
\<close>

record env =
  getObject :: "jsval \<Rightarrow> error + jsval"
  getConversionFactor :: "jsval \<Rightarrow> jsval"
  toNumber :: "(addr \<Rightarrow> hobj) \<Rightarrow> jsval \<Rightarrow> jsval"

type_synonym 'a res = "(error + 'a) \<times> world"

section \<open>Reference resolver and chunk reassembler\<close>

text \<open>
  \<^verbatim>\<open>
  async resolveReference( obj ) {
    if ( obj.referencedId )
      return await this.objectLoader.getObject( obj.referencedId )
    else return obj
  }
  \<close>
\<close>

definition resolveReference :: "env \<Rightarrow> jsval \<Rightarrow> world \<Rightarrow> jsval res" where
  "resolveReference env obj w =
     (case get_prop (heap w) obj ''referencedId'' of
        Inl e \<Rightarrow> (Inl e, w)
      | Inr rid \<Rightarrow>
          if truthy rid then (getObject env rid, log (GetObject rid) w)
          else (Inr obj, w))"

text \<open>\<^verbatim>\<open>arr[0]\<close> on any value.\<close>

definition first_elem :: "heap \<Rightarrow> jsval \<Rightarrow> error + jsval" where
  "first_elem h arr =
     (case arr of
        Undefined \<Rightarrow> Inl TypeError
      | Null \<Rightarrow> Inl TypeError
      | Ref a \<Rightarrow> (case h a of Arr xs \<Rightarrow> Inr (elem_at xs 0) | Obj fs \<Rightarrow> Inr (lookup fs ''0''))
      | Str s \<Rightarrow> Inr (if s = [] then Undefined else Str [hd s])
      | _ \<Rightarrow> Inr Undefined)"

text \<open>
  The values of an iterable (\<^verbatim>\<open>for ( let ref of arr )\<close>, \<^verbatim>\<open>...real.data\<close>): the elements
  of an array, the characters of a string, a TypeError on anything else.
\<close>

definition iterate :: "heap \<Rightarrow> jsval \<Rightarrow> error + jsval list" where
  "iterate h v =
     (case v of
        Ref a \<Rightarrow> (case h a of Arr xs \<Rightarrow> Inr xs | Obj fs \<Rightarrow> Inl TypeError)
      | Str s \<Rightarrow> Inr (map (\<lambda>c. Str [c]) s)
      | _ \<Rightarrow> Inl TypeError)"

text \<open>
  \<^verbatim>\<open>
  async dechunk( arr ) {
    // Handles pre-chunking objects, or arrs that have not been chunked
    if ( !arr[0].referencedId ) return arr

    let dechunked = []
    for ( let ref of arr ) {
      let real = await this.objectLoader.getObject( ref.referencedId )
      dechunked.push( ...real.data )
    }
    return dechunked
  }
  \<close>
  The result is either the argument itself or a new array.
\<close>

datatype arrval = Same jsval | Fresh "jsval list"

fun dechunk_loop :: "env \<Rightarrow> jsval list \<Rightarrow> jsval list \<Rightarrow> world \<Rightarrow> (jsval list) res" where
  "dechunk_loop env [] dechunked w = (Inr dechunked, w)"
| "dechunk_loop env (ref # refs) dechunked w =
     (case get_prop (heap w) ref ''referencedId'' of
        Inl e \<Rightarrow> (Inl e, w)
      | Inr rid \<Rightarrow>
          (case getObject env rid of
             Inl e \<Rightarrow> (Inl e, log (GetObject rid) w)
           | Inr realv \<Rightarrow>
               (case get_prop (heap w) realv ''data'' of
                  Inl e \<Rightarrow> (Inl e, log (GetObject rid) w)
                | Inr d \<Rightarrow>
                    (case iterate (heap w) d of
                       Inl e \<Rightarrow> (Inl e, log (GetObject rid) w)
                     | Inr xs \<Rightarrow> dechunk_loop env refs (dechunked @ xs) (log (GetObject rid) w)))))"

definition dechunk :: "env \<Rightarrow> jsval \<Rightarrow> world \<Rightarrow> arrval res" where
  "dechunk env arr w =
     (case first_elem (heap w) arr of
        Inl e \<Rightarrow> (Inl e, w)
      | Inr x \<Rightarrow>
          (case get_prop (heap w) x ''referencedId'' of
             Inl e \<Rightarrow> (Inl e, w)
           | Inr rid \<Rightarrow>
               if \<not> truthy rid then (Inr (Same arr), w)
               else
                 (case iterate (heap w) arr of
                    Inl e \<Rightarrow> (Inl e, w)
                  | Inr refs \<Rightarrow>
                      (case dechunk_loop env refs [] w of
                         (Inl e, w') \<Rightarrow> (Inl e, w')
                       | (Inr xs, w') \<Rightarrow> (Inr (Fresh xs), w')))))"

section \<open>Type tags\<close>

text \<open>\<^verbatim>\<open>s.split( sep )\<close> for a separator of one character: one more piece than separators.\<close>

fun js_split :: "char \<Rightarrow> string \<Rightarrow> string list" where
  "js_split sep [] = [[]]"
| "js_split sep (c # cs) =
     (if c = sep then [] # js_split sep cs
      else (case js_split sep cs of
              [] \<Rightarrow> [[c]]
            | x # xs \<Rightarrow> (c # x) # xs))"

text \<open>
  \<^verbatim>\<open>st ? st.split( '.' ).reverse()[0] : type\<close> with \<^verbatim>\<open>type = 'Base'\<close>: a truthy value
  that is not a string has no \<^verbatim>\<open>split\<close> method, and the call is a TypeError.
\<close>

definition tag_of :: "jsval \<Rightarrow> error + string" where
  "tag_of st =
     (if truthy st then
        (case st of
           Str s \<Rightarrow> Inr (hd (rev (js_split (CHR ''.'') s)))
         | _ \<Rightarrow> Inl TypeError)
      else Inr ''Base'')"

text \<open>
  \<^verbatim>\<open>
  getSpeckleType( obj ) {
    let type = 'Base'
    if ( obj.data )
      type = obj.data.speckle_type ? obj.data.speckle_type.split( '.' ).reverse()[0] : type
    else
      type = obj.speckle_type ? obj.speckle_type.split( '.' ).reverse()[0] : type
    return type
  }
  \<close>
\<close>

definition getSpeckleType :: "heap \<Rightarrow> jsval \<Rightarrow> error + string" where
  "getSpeckleType h obj =
     (case get_prop h obj ''data'' of
        Inl e \<Rightarrow> Inl e
      | Inr d \<Rightarrow>
          if truthy d then
            (case get_prop h d ''speckle_type'' of Inl e \<Rightarrow> Inl e | Inr st \<Rightarrow> tag_of st)
          else
            (case get_prop h obj ''speckle_type'' of Inl e \<Rightarrow> Inl e | Inr st \<Rightarrow> tag_of st))"

section \<open>Numbers: rounding, multiplication and storage in 32 bits\<close>

text \<open>
  Rounding to a binary floating-point format with \<open>p\<close> fraction bits and exponents from
  \<open>emin\<close> to \<open>emax\<close>, to the nearest value, ties to the even significand. A value of the
  format of magnitude \<open>a\<close> in the binade \<open>2^e \<le> a < 2^(e+1)\<close> is a multiple of \<open>2^(e-p)\<close>;
  the binades run from \<open>emin\<close> (below it the spacing stays \<open>2^(emin-p)\<close>) to \<open>emax\<close>, and
  a magnitude that rounds to \<open>2^(emax+1)\<close> or more becomes an infinity. The numbers of
  JavaScript are those of binary64 (\<open>p = 52\<close>, exponents \<open>-1022\<close> to \<open>1023\<close>); a
  \<^verbatim>\<open>Float32Array\<close> holds binary32 values (\<open>p = 23\<close>, exponents \<open>-126\<close> to \<open>127\<close>).
\<close>

definition pow2 :: "int \<Rightarrow> rat" where
  "pow2 e = (if 0 \<le> e then 2 ^ nat e else 1 / 2 ^ nat (- e))"

definition round_ties_even :: "rat \<Rightarrow> int" where
  "round_ties_even y =
     (let n = \<lfloor>y\<rfloor>; f = y - of_int n
      in if f < 1 / 2 then n else if 1 / 2 < f then n + 1 else if even n then n else n + 1)"

definition binade :: "int \<Rightarrow> int \<Rightarrow> rat \<Rightarrow> int" where
  "binade emin emax a =
     (case find (\<lambda>e. pow2 e \<le> a) (rev [emin..emax]) of None \<Rightarrow> emin | Some e \<Rightarrow> e)"

definition round_to :: "int \<Rightarrow> int \<Rightarrow> int \<Rightarrow> rat \<Rightarrow> jsval" where
  "round_to p emin emax x =
     (let a = \<bar>x\<bar>;
          q = pow2 (binade emin emax a - p);
          r = of_int (round_ties_even (a / q)) * q
      in if pow2 (emax + 1) \<le> r then (if 0 < x then PosInfinity else NegInfinity)
         else Num (if x < 0 then - r else r))"

definition dround :: "rat \<Rightarrow> jsval" where
  "dround x = round_to 52 (- 1022) 1023 x"

definition fround :: "rat \<Rightarrow> jsval" where
  "fround x = round_to 23 (- 126) 127 x"

text \<open>
  The conversion of a value to a number: \<^verbatim>\<open>undefined\<close> is \<^verbatim>\<open>NaN\<close>, \<^verbatim>\<open>null\<close> is 0, a
  boolean is 0 or 1, a number is itself; for a string or an object it is the platform's.
\<close>

definition to_number :: "env \<Rightarrow> heap \<Rightarrow> jsval \<Rightarrow> jsval" where
  "to_number env h v =
     (case v of
        Undefined \<Rightarrow> NaN
      | Null \<Rightarrow> Num 0
      | Bool b \<Rightarrow> Num (if b then 1 else 0)
      | Str s \<Rightarrow> toNumber env h v
      | Ref a \<Rightarrow> toNumber env h v
      | _ \<Rightarrow> v)"

text \<open>
  \<^verbatim>\<open>a * b\<close>: both operands are converted to numbers; the product of two finite numbers
  is the exact product rounded to 64 bits, a product with \<^verbatim>\<open>NaN\<close> or of 0 and an infinity
  is \<^verbatim>\<open>NaN\<close>, and any other product with an infinity is the infinity of the right sign.
\<close>

definition times_number :: "jsval \<Rightarrow> jsval \<Rightarrow> jsval" where
  "times_number a b =
     (case a of
        Num x \<Rightarrow>
          (case b of
             Num y \<Rightarrow> dround (x * y)
           | PosInfinity \<Rightarrow> if x = 0 then NaN else if 0 < x then PosInfinity else NegInfinity
           | NegInfinity \<Rightarrow> if x = 0 then NaN else if 0 < x then NegInfinity else PosInfinity
           | _ \<Rightarrow> NaN)
      | PosInfinity \<Rightarrow>
          (case b of
             Num y \<Rightarrow> if y = 0 then NaN else if 0 < y then PosInfinity else NegInfinity
           | PosInfinity \<Rightarrow> PosInfinity
           | NegInfinity \<Rightarrow> NegInfinity
           | _ \<Rightarrow> NaN)
      | NegInfinity \<Rightarrow>
          (case b of
             Num y \<Rightarrow> if y = 0 then NaN else if 0 < y then NegInfinity else PosInfinity
           | PosInfinity \<Rightarrow> NegInfinity
           | NegInfinity \<Rightarrow> PosInfinity
           | _ \<Rightarrow> NaN)
      | _ \<Rightarrow> NaN)"

definition js_times :: "env \<Rightarrow> heap \<Rightarrow> jsval \<Rightarrow> jsval \<Rightarrow> jsval" where
  "js_times env h a b = times_number (to_number env h a) (to_number env h b)"

text \<open>
  \<^verbatim>\<open>new THREE.Float32BufferAttribute( array, 3 )\<close> copies the array into a
  \<^verbatim>\<open>Float32Array\<close>: every element is converted to a number and the number is rounded to
  32 bits.
\<close>

definition float32 :: "jsval \<Rightarrow> jsval" where
  "float32 v = (case v of Num x \<Rightarrow> fround x | _ \<Rightarrow> v)"

definition Float32BufferAttribute :: "env \<Rightarrow> heap \<Rightarrow> jsval list \<Rightarrow> jsval list" where
  "Float32BufferAttribute env h array = map (\<lambda>v. float32 (to_number env h v)) array"

section \<open>Type-specific converters\<close>

text \<open>\<^verbatim>\<open>delete obj.k\<close>: removes the field of an object, and is a no-op on anything else.\<close>

definition delete_prop :: "string \<Rightarrow> jsval \<Rightarrow> heap \<Rightarrow> heap" where
  "delete_prop k obj h =
     (case obj of
        Ref a \<Rightarrow> (case h a of
                    Obj fs \<Rightarrow> h(a := Obj (filter (\<lambda>f. fst f \<noteq> k) fs))
                  | Arr xs \<Rightarrow> h)
      | _ \<Rightarrow> h)"

definition delete_props :: "string list \<Rightarrow> jsval \<Rightarrow> heap \<Rightarrow> heap" where
  "delete_props ks obj h = fold (\<lambda>k. delete_prop k obj) ks h"

text \<open>Whether an object carries a field of its own under a name.\<close>

definition has_field :: "heap \<Rightarrow> jsval \<Rightarrow> string \<Rightarrow> bool" where
  "has_field h v k =
     (case v of
        Ref a \<Rightarrow> (case h a of Obj fs \<Rightarrow> k \<in> set (map fst fs) | Arr xs \<Rightarrow> False)
      | _ \<Rightarrow> False)"

text \<open>
  The elements of a dechunked buffer that is an array. The face loop and the position
  attribute of the Mesh converter are modelled on arrays; a \<^verbatim>\<open>vertices\<close> or \<^verbatim>\<open>faces\<close> value
  that gets through \<^verbatim>\<open>dechunk\<close> without being one (a number, a string, an object with a
  field \<^verbatim>\<open>0\<close>) is outside the model, and the conversion then ends in \<open>Unmodelled\<close>.
\<close>

definition elements :: "heap \<Rightarrow> arrval \<Rightarrow> jsval list option" where
  "elements h av =
     (case av of
        Fresh xs \<Rightarrow> Some xs
      | Same v \<Rightarrow>
          (case v of
             Ref a \<Rightarrow> (case h a of Arr xs \<Rightarrow> Some xs | Obj fs \<Rightarrow> None)
           | _ \<Rightarrow> None))"

text \<open>
  \<^verbatim>\<open>
  async MeshToBufferGeometry( obj ) {
    if ( !obj ) return

    let conversionFactor = getConversionFactor( obj.units )
    let buffer = new THREE.BufferGeometry( )
    let indices = [ ]

    let vertices = await this.dechunk( obj.vertices )
    let faces = await this.dechunk( obj.faces )

    let k = 0
    while ( k < faces.length ) { ... }
    buffer.setIndex( indices )

    buffer.setAttribute(
      'position',
      new THREE.Float32BufferAttribute( conversionFactor === 1 ? vertices : vertices.map( v => v * conversionFactor ), 3 ) )
    ...
    delete obj.vertices
    delete obj.faces

    return new ObjectWrapper( buffer, obj )
  }
  \<close>
\<close>

definition MeshToBufferGeometry :: "env \<Rightarrow> jsval \<Rightarrow> world \<Rightarrow> (wrapper option) res" where
  "MeshToBufferGeometry env obj w =
     (if \<not> truthy obj then (Inr None, w)
      else
        (case get_prop (heap w) obj ''units'' of
           Inl e \<Rightarrow> (Inl e, w)
         | Inr units \<Rightarrow>
        (let conversionFactor = getConversionFactor env units in
        (case get_prop (heap w) obj ''vertices'' of
           Inl e \<Rightarrow> (Inl e, w)
         | Inr vs \<Rightarrow>
        (case dechunk env vs w of
           (Inl e, w1) \<Rightarrow> (Inl e, w1)
         | (Inr vertices, w1) \<Rightarrow>
        (case get_prop (heap w1) obj ''faces'' of
           Inl e \<Rightarrow> (Inl e, w1)
         | Inr fs \<Rightarrow>
        (case dechunk env fs w1 of
           (Inl e, w2) \<Rightarrow> (Inl e, w2)
         | (Inr faces, w2) \<Rightarrow>
        (case elements (heap w2) faces of
           None \<Rightarrow> (Inl Unmodelled, w2)
         | Some faces_xs \<Rightarrow>
        (case faces_loop faces_xs 0 [] of
           Inl e \<Rightarrow> (Inl e, w2)
         | Inr indices \<Rightarrow>
        (case elements (heap w2) vertices of
           None \<Rightarrow> (Inl Unmodelled, w2)
         | Some vertices_xs \<Rightarrow>
             (Inr (Some \<lparr>bufferGeometry =
                          \<lparr>index = indices,
                           position =
                             Float32BufferAttribute env (heap w2)
                               (if conversionFactor = Num 1 then vertices_xs
                                else map (\<lambda>v. js_times env (heap w2) v conversionFactor)
                                       vertices_xs)\<rparr>,
                        meta = obj\<rparr>),
              w2\<lparr>heap := delete_prop ''faces'' obj (delete_prop ''vertices'' obj (heap w2))\<rparr>)))))))))))"

text \<open>
  \<^verbatim>\<open>
  async BrepToBufferGeometry( obj ) {
    if ( !obj ) return
    let { bufferGeometry }  = await this.MeshToBufferGeometry( await this.resolveReference( obj.displayValue || obj.displayMesh ) )

    delete obj.displayMesh
    delete obj.displayValue
    delete obj.Edges
    delete obj.Faces
    delete obj.Loops
    delete obj.Trims
    delete obj.Curve2D
    delete obj.Curve3D
    delete obj.Surfaces
    delete obj.Vertices

    return new ObjectWrapper( bufferGeometry, obj )
  }
  \<close>
  Destructuring \<^verbatim>\<open>undefined\<close> (the Mesh converter returned nothing) is a TypeError.
\<close>

definition brep_fields :: "string list" where
  "brep_fields = [''displayMesh'', ''displayValue'', ''Edges'', ''Faces'', ''Loops'', ''Trims'',
                  ''Curve2D'', ''Curve3D'', ''Surfaces'', ''Vertices'']"

definition BrepToBufferGeometry :: "env \<Rightarrow> jsval \<Rightarrow> world \<Rightarrow> (wrapper option) res" where
  "BrepToBufferGeometry env obj w =
     (if \<not> truthy obj then (Inr None, w)
      else
        (case get_prop (heap w) obj ''displayValue'' of
           Inl e \<Rightarrow> (Inl e, w)
         | Inr dv \<Rightarrow>
        (case get_prop (heap w) obj ''displayMesh'' of
           Inl e \<Rightarrow> (Inl e, w)
         | Inr dm \<Rightarrow>
        (case resolveReference env (js_or dv dm) w of
           (Inl e, w1) \<Rightarrow> (Inl e, w1)
         | (Inr m, w1) \<Rightarrow>
        (case MeshToBufferGeometry env m w1 of
           (Inl e, w2) \<Rightarrow> (Inl e, w2)
         | (Inr None, w2) \<Rightarrow> (Inl TypeError, w2)
         | (Inr (Some r), w2) \<Rightarrow>
             (Inr (Some \<lparr>bufferGeometry = bufferGeometry r, meta = obj\<rparr>),
              w2\<lparr>heap := delete_props brep_fields obj (heap w2)\<rparr>))))))"

text \<open>
  \<^verbatim>\<open>this[`${type}ToBufferGeometry`]\<close>: the class has the two methods
  \<^verbatim>\<open>BrepToBufferGeometry\<close> and \<^verbatim>\<open>MeshToBufferGeometry\<close>.
\<close>

definition converter :: "string \<Rightarrow> (env \<Rightarrow> jsval \<Rightarrow> world \<Rightarrow> (wrapper option) res) option" where
  "converter type =
     (if type @ ''ToBufferGeometry'' = ''BrepToBufferGeometry'' then Some BrepToBufferGeometry
      else if type @ ''ToBufferGeometry'' = ''MeshToBufferGeometry'' then Some MeshToBufferGeometry
      else None)"

section \<open>Graph traversal and conversion dispatcher\<close>

definition isArray :: "heap \<Rightarrow> jsval \<Rightarrow> bool" where
  "isArray h v = (case v of Ref a \<Rightarrow> (case h a of Arr xs \<Rightarrow> True | Obj fs \<Rightarrow> False) | _ \<Rightarrow> False)"

definition array_elements :: "heap \<Rightarrow> jsval \<Rightarrow> jsval list" where
  "array_elements h v = (case v of Ref a \<Rightarrow> (case h a of Arr xs \<Rightarrow> xs | Obj fs \<Rightarrow> []) | _ \<Rightarrow> [])"

text \<open>
  The values \<^verbatim>\<open>d[prop]\<close> that \<^verbatim>\<open>for ( let prop in d )\<close> reaches: the fields of an object
  (each name once), the elements of an array, the characters of a string, nothing for
  \<^verbatim>\<open>undefined\<close>, \<^verbatim>\<open>null\<close>, numbers and booleans.
\<close>

definition forin_values :: "heap \<Rightarrow> jsval \<Rightarrow> jsval list" where
  "forin_values h d =
     (case d of
        Ref a \<Rightarrow> (case h a of
                    Obj fs \<Rightarrow> map (lookup fs) (remdups (map fst fs))
                  | Arr xs \<Rightarrow> xs)
      | Str s \<Rightarrow> map (\<lambda>c. Str [c]) s
      | _ \<Rightarrow> [])"

text \<open>
  A loop that starts one task per value, in the order of the values. What a started task
  does is the traversal of its value by the same function; its steps run between the steps
  of its parent and of its siblings, in an order that is the scheduler's, and they are not
  part of the events of the task that started it. Up to its first \<^verbatim>\<open>await\<close> a task only
  reads the heap, so a task that has started others goes on with the heap as it was.
\<close>

fun start_tasks :: "jsval list \<Rightarrow> world \<Rightarrow> world" where
  "start_tasks [] w = w"
| "start_tasks (v # vs) w = start_tasks vs (log (Spawn v) w)"

text \<open>
  \<^verbatim>\<open>
  async traverseAndConvert( obj, callback ) {
    // Handle primitives (string, ints, bools, bigints, etc.)
    if ( typeof obj !== 'object' ) return

    // Populate references
    if ( obj.referencedId ) obj = await this.resolveReference( obj )

    // Traverse arrays
    if ( Array.isArray( obj ) ) {
      for ( let element of obj ) {
        ( async() => await this.traverseAndConvert( element, callback ) )() //iife so we don't block
      }
    }

    // If we can convert it, we should invoke the respective conversion routine.
    const type = this.getSpeckleType( obj )
    if ( this[`${type}ToBufferGeometry`] ) {
      callback( await this[`${type}ToBufferGeometry`]( obj.data || obj ) )
      return
    }

    // Otherwise, traverse the object in case there's any sub-objects we can convert.
    for ( let prop in obj.data ) {
      ( async() => await this.traverseAndConvert( obj.data[prop], callback ) )() //iife so we don't block
    }
  }
  \<close>
  This is one invocation, with the calls it awaits (the reference resolver and the
  converter); the invocations on the elements and on the fields are the tasks it starts.
  While an invocation awaits, tasks started elsewhere may run and change the heap: the
  run of one invocation is given from the heap it finds, with no such step in between, and
  nothing is said here about the order in which the steps of several tasks follow each
  other.
\<close>

definition traverseAndConvert :: "env \<Rightarrow> jsval \<Rightarrow> world \<Rightarrow> unit res" where
  "traverseAndConvert env obj w =
     (if \<not> typeof_object obj then (Inr (), w)
      else
        (case get_prop (heap w) obj ''referencedId'' of
           Inl e \<Rightarrow> (Inl e, w)
         | Inr rid \<Rightarrow>
        (case (if truthy rid then resolveReference env obj w else (Inr obj, w)) of
           (Inl e, w1) \<Rightarrow> (Inl e, w1)
         | (Inr obj1, w1) \<Rightarrow>
        (let w2 = (if isArray (heap w1) obj1
                   then start_tasks (array_elements (heap w1) obj1) w1
                   else w1) in
        (case getSpeckleType (heap w2) obj1 of
           Inl e \<Rightarrow> (Inl e, w2)
         | Inr type \<Rightarrow>
        (case get_prop (heap w2) obj1 ''data'' of
           Inl e \<Rightarrow> (Inl e, w2)
         | Inr d \<Rightarrow>
        (case converter type of
           Some conv \<Rightarrow>
             (case conv env (js_or d obj1) (log (Invoke type (js_or d obj1)) w2) of
                (Inl e, w3) \<Rightarrow> (Inl e, w3)
              | (Inr r, w3) \<Rightarrow> (Inr (), log (Callback r) w3))
         | None \<Rightarrow> (Inr (), start_tasks (forin_values (heap w2) d) w2))))))))"

section \<open>Streaming session orchestrator\<close>

text \<open>
  The constructor of \<^verbatim>\<open>ViewerObjectLoader\<close> parses the object URL with the platform's
  \<^verbatim>\<open>new URL( objectUrl )\<close>; the model starts from the parsed URL, of which the code reads
  \<^verbatim>\<open>origin\<close> and \<^verbatim>\<open>pathname\<close>.
\<close>

record url =
  origin :: string
  pathname :: string

text \<open>\<^verbatim>\<open>s.indexOf( pat )\<close>: the first position at which \<open>pat\<close> occurs in \<open>s\<close>, or -1.\<close>

fun indexOf_from :: "string \<Rightarrow> string \<Rightarrow> nat \<Rightarrow> int" where
  "indexOf_from [] pat i = (if pat = [] then int i else - 1)"
| "indexOf_from (c # cs) pat i =
     (if take (length pat) (c # cs) = pat then int i else indexOf_from cs pat (Suc i))"

definition indexOf :: "string \<Rightarrow> string \<Rightarrow> int" where
  "indexOf s pat = indexOf_from s pat 0"

text \<open>
  \<^verbatim>\<open>
  // example url: `https://staging.speckle.dev/streams/a75ab4f10f/objects/f33645dc9a702de8af0af16bd5f655b0`
  let url = new URL( objectUrl )

  let segments = url.pathname.split( '/' )
  if ( segments.length < 5 || url.pathname.indexOf( 'streams' ) === -1 || url.pathname.indexOf( 'objects' ) === -1 ) {
    throw new Error( 'Unexpected object url format.' )
  }

  this.serverUrl = url.origin
  this.streamId = segments[2]
  this.objectId = segments[4]

  this.loader = new ObjectLoader( { serverUrl: this.serverUrl, token: this.token,
    streamId: this.streamId, objectId: this.objectId } )
  \<close>
  The session below holds what the constructor hands to the object loader, which is
  created after the check only.
\<close>

record session =
  serverUrl :: string
  streamId :: string
  objectId :: string

definition ViewerObjectLoader :: "url \<Rightarrow> error + session" where
  "ViewerObjectLoader u =
     (let segments = js_split (CHR ''/'') (pathname u) in
      if length segments < 5 \<or> indexOf (pathname u) ''streams'' = - 1
           \<or> indexOf (pathname u) ''objects'' = - 1
      then Inl UnexpectedObjectUrlFormat
      else Inr \<lparr>serverUrl = origin u, streamId = segments ! 2, objectId = segments ! 4\<rparr>)"

text \<open>
  The fragments the loader's iterator yields. \<^verbatim>\<open>totalChildrenCount\<close> is the count the
  store declares on a fragment, a natural number; the progress fraction
  \<^verbatim>\<open>current / ( total + 1 )\<close> is a quotient of two positive integers and is kept as a
  rational.
\<close>

record fragment =
  node :: jsval
  totalChildrenCount :: nat

datatype viewer_event = LoadProgress rat string

text \<open>
  \<^verbatim>\<open>
  let first = true
  let current = 0
  let total = 0
  let viewerLoads = 0
  let firstObjectPromise = null
  for await ( let obj of this.loader.getObjectIterator() ) {
    if ( first ) {
      firstObjectPromise = this.converter.traverseAndConvert( obj, async ( objectWrapper ) => { ... } )
      first = false
      total = obj.totalChildrenCount
    }
    current++
    this.viewer.emit( 'load-progress', { progress: current / ( total + 1 ), id: this.objectId } )
  }
  \<close>
  The traversal of the first fragment runs in the background and emits no event of the
  viewer; \<open>firstObjectPromise\<close> records the node it was started on. After the loop
  \<^verbatim>\<open>load\<close> awaits that promise and emits no further \<^verbatim>\<open>load-progress\<close>.
\<close>

record load_state =
  first :: bool
  current :: nat
  total_count :: nat
  firstObjectPromise :: "jsval option"
  emitted :: "viewer_event list"

definition load_step :: "string \<Rightarrow> fragment \<Rightarrow> load_state \<Rightarrow> load_state" where
  "load_step oid obj s =
     (let s1 = (if first s
                then s\<lparr>firstObjectPromise := Some (node obj), first := False,
                       total_count := totalChildrenCount obj\<rparr>
                else s);
          s2 = s1\<lparr>current := current s1 + 1\<rparr>
      in s2\<lparr>emitted := emitted s2 @
             [LoadProgress (of_nat (current s2) / (of_nat (total_count s2) + 1)) oid]\<rparr>)"

fun load_loop :: "string \<Rightarrow> fragment list \<Rightarrow> load_state \<Rightarrow> load_state" where
  "load_loop oid [] s = s"
| "load_loop oid (obj # rest) s = load_loop oid rest (load_step oid obj s)"

definition load :: "session \<Rightarrow> fragment list \<Rightarrow> load_state" where
  "load ses frags =
     load_loop (objectId ses) frags
       \<lparr>first = True, current = 0, total_count = 0, firstObjectPromise = None, emitted = []\<rparr>"

fun progress :: "viewer_event \<Rightarrow> rat" where
  "progress (LoadProgress p oid) = p"

section \<open>Concrete heaps and stores\<close>

text \<open>
  A heap given by the list of its objects with their addresses (any other address holds an
  empty object), and a store that knows no id; they serve to run the definitions on
  examples.
\<close>

definition heap_of :: "(addr \<times> hobj) list \<Rightarrow> heap" where
  "heap_of os a = (case map_of os a of None \<Rightarrow> Obj [] | Some ob \<Rightarrow> ob)"

definition world_of :: "(addr \<times> hobj) list \<Rightarrow> world" where
  "world_of os = \<lparr>heap = heap_of os, trace = []\<rparr>"

definition empty_store :: env where
  "empty_store =
     \<lparr>getObject = (\<lambda>rid. Inl StoreError),
      getConversionFactor = (\<lambda>units. Num 1),
      toNumber = (\<lambda>h v. NaN)\<rparr>"

text \<open>A Units module for which every unit is half the target unit.\<close>

definition scaling_store :: env where
  "scaling_store =
     \<lparr>getObject = (\<lambda>rid. Inl StoreError),
      getConversionFactor = (\<lambda>units. Num (1 / 2)),
      toNumber = (\<lambda>h v. NaN)\<rparr>"

text \<open>
  A mesh whose first vertex value, \<open>1 + 2^(-30)\<close>, is a 64-bit float that is no 32-bit
  float.
\<close>

definition precise_example :: "(addr \<times> hobj) list" where
  "precise_example =
     [(80, Obj [(''id'', Str ''m4''), (''units'', Str ''m''),
                (''vertices'', Ref 81), (''faces'', Ref 82)]),
      (81, Arr [Num (1073741825 / 1073741824), Num 0, Num 0]),
      (82, Arr [Num 0, Num 0, Num 0, Num 0])]"

definition mesh_example :: "(addr \<times> hobj) list" where
  "mesh_example =
     [(10, Obj [(''id'', Str ''m1''), (''speckle_type'', Str ''Objects.Geometry.Mesh''),
                (''units'', Str ''m''), (''vertices'', Ref 11), (''faces'', Ref 12)]),
      (11, Arr [Num 0, Num 0, Num 0, Num 1, Num 0, Num 0, Num 1, Num 1, Num 0,
                Num 0, Num 1, Num 0]),
      (12, Arr [Num 1, Num 0, Num 1, Num 2, Num 3])]"

definition brep_example :: "(addr \<times> hobj) list" where
  "brep_example =
     [(20, Obj [(''id'', Str ''b1''), (''speckle_type'', Str ''Objects.Geometry.Brep''),
                (''displayValue'', Ref 21), (''Edges'', Ref 24), (''Vertices'', Ref 24)]),
      (21, Obj [(''id'', Str ''m2''), (''vertices'', Ref 22), (''faces'', Ref 23)]),
      (22, Arr [Num 0, Num 0, Num 0, Num 1, Num 0, Num 0, Num 1, Num 1, Num 0]),
      (23, Arr [Num 0, Num 0, Num 1, Num 2]),
      (24, Arr [])]"

definition scene_example :: "(addr \<times> hobj) list" where
  "scene_example =
     [(31, Obj [(''first'', Ref 32), (''again'', Ref 32)]),
      (32, Obj [(''id'', Str ''m3''), (''vertices'', Ref 33), (''faces'', Ref 34)]),
      (33, Arr [Num 0, Num 0, Num 0, Num 1, Num 0, Num 0, Num 1, Num 1, Num 0]),
      (34, Arr [Num 0, Num 0, Num 1, Num 2])]"

definition session_example :: session where
  "session_example =
     \<lparr>serverUrl = ''https://staging.speckle.dev'', streamId = ''a75ab4f10f'',
      objectId = ''f33645dc9a''\<rparr>"

definition fragments_example :: "fragment list" where
  "fragments_example =
     [\<lparr>node = Ref 60, totalChildrenCount = 2\<rparr>,
      \<lparr>node = Ref 61, totalChildrenCount = 0\<rparr>,
      \<lparr>node = Ref 62, totalChildrenCount = 0\<rparr>]"




section \<open>Basic facts about the model\<close>

lemma flatten_append: "flatten (xs @ ys) = flatten xs @ flatten ys"
  by (induction xs rule: flatten.induct) auto

lemma get_prop_truthy: "truthy obj \<Longrightarrow> \<exists>v. get_prop h obj k = Inr v"
  by (cases obj) (auto simp: get_prop_def split: hobj.splits)

lemma heap_log [simp]: "heap (log ev w) = heap w"
  by (simp add: log_def)

lemma trace_log [simp]: "trace (log ev w) = trace w @ [ev]"
  by (simp add: log_def)

lemma dechunk_loop_heap: "dechunk_loop env refs acc w = (r, w') \<Longrightarrow> heap w' = heap w"
proof (induction refs arbitrary: acc w)
  case Nil
  then show ?case by simp
next
  case (Cons ref refs)
  then show ?case
    by (auto split: sum.splits)
qed

lemma dechunk_heap: "dechunk env arr w = (r, w') \<Longrightarrow> heap w' = heap w"
  by (auto simp: dechunk_def split: sum.splits if_splits prod.splits dest: dechunk_loop_heap)

lemma mesh_abort:
  assumes "truthy obj"
    and "get_prop (heap w) obj ''vertices'' = Inr vs"
    and "dechunk env vs w = (Inr vertices, w1)"
    and "get_prop (heap w1) obj ''faces'' = Inr fs"
    and "dechunk env fs w1 = (Inr fcs, w2)"
    and "elements (heap w2) fcs = Some faces"
    and "faces_loop faces 0 [] = Inl e"
  shows "MeshToBufferGeometry env obj w = (Inl e, w2)"
proof -
  obtain u where "get_prop (heap w) obj ''units'' = Inr u"
    using get_prop_truthy [OF assms(1)] by blast
  then show ?thesis
    using assms by (simp add: MeshToBufferGeometry_def)
qed

section \<open>Roundings of some numbers\<close>

text \<open>
  The binade of a magnitude is found by its two bounds, and the rounding of a number is
  then one division and one rounding to an integer. The numbers 0, 1 and 1/2 are values of
  both formats; \<open>1 + 2^(-30)\<close> is a value of binary64 that binary32 rounds to 1; the
  decimal 0.1, and the binary64 value nearest to it, are stored in 32 bits as
  \<open>13421773 / 2^27\<close>; and three times the binary64 value of 0.1 is the binary64 value that
  prints as 0.30000000000000004.
\<close>

lemma pow2_powi: "pow2 e = 2 powi e"
  by (simp add: pow2_def power_int_def field_simps)

lemma pow2_pos: "0 < pow2 e"
  by (simp add: pow2_def)

lemma pow2_strict_mono: "e < e' \<Longrightarrow> pow2 e < pow2 e'"
  by (simp add: pow2_powi power_int_strict_increasing)

lemma find_first:
  "(\<forall>y \<in> set ys. \<not> P y) \<Longrightarrow> P x \<Longrightarrow> find P (ys @ x # zs) = Some x"
  by (induction ys) auto

lemma binade_normal:
  assumes "emin \<le> e" and "e \<le> emax" and "pow2 e \<le> a" and "a < pow2 (e + 1)"
  shows "binade emin emax a = e"
proof -
  have split: "rev [emin..emax] = rev [e + 1..emax] @ e # rev [emin..e - 1]"
    using upto_split3 [OF assms(1,2)] by simp
  have "\<forall>y \<in> set (rev [e + 1..emax]). \<not> pow2 y \<le> a"
  proof
    fix y assume "y \<in> set (rev [e + 1..emax])"
    then have "e + 1 \<le> y" by simp
    then have "pow2 (e + 1) \<le> pow2 y"
      using pow2_strict_mono [of "e + 1" y] by (cases "e + 1 = y") auto
    with assms(4) show "\<not> pow2 y \<le> a" by simp
  qed
  then have "find (\<lambda>e. pow2 e \<le> a) (rev [emin..emax]) = Some e"
    unfolding split using assms(3) by (rule find_first)
  then show ?thesis by (simp add: binade_def)
qed

lemma binade_subnormal:
  assumes "a < pow2 emin"
  shows "binade emin emax a = emin"
proof -
  have "\<not> (\<exists>y. y \<in> set (rev [emin..emax]) \<and> pow2 y \<le> a)"
  proof
    assume "\<exists>y. y \<in> set (rev [emin..emax]) \<and> pow2 y \<le> a"
    then obtain y where y: "emin \<le> y" "pow2 y \<le> a"
      by (auto simp only: set_rev set_upto atLeastAtMost_iff)
    then have "pow2 emin \<le> pow2 y"
      using pow2_strict_mono [of emin y] by (cases "emin = y") auto
    with y(2) assms show False by simp
  qed
  then have "find (\<lambda>e. pow2 e \<le> a) (rev [emin..emax]) = None"
    unfolding find_None_iff .
  then show ?thesis by (simp add: binade_def)
qed

lemma round_to_eval:
  assumes "binade emin emax \<bar>x\<bar> = e" and "round_ties_even (\<bar>x\<bar> / pow2 (e - p)) = n"
    and "rat_of_int n * pow2 (e - p) < pow2 (emax + 1)"
  shows "round_to p emin emax x
         = Num (if x < 0 then - (of_int n * pow2 (e - p)) else of_int n * pow2 (e - p))"
  using assms(3) by (simp only: round_to_def Let_def assms(1,2)) simp

lemma fround_0: "fround 0 = Num 0"
proof -
  have b: "binade (- 126) 127 \<bar>0\<bar> = - 126"
    by (rule binade_subnormal) (simp add: pow2_def)
  have r: "round_ties_even (\<bar>0\<bar> / pow2 (- 126 - 23)) = 0"
    by code_simp
  show ?thesis
    unfolding fround_def using round_to_eval [OF b r] by (simp add: pow2_def)
qed

lemma fround_1: "fround 1 = Num 1"
proof -
  have b: "binade (- 126) 127 \<bar>1\<bar> = 0"
    by (rule binade_normal) (simp_all add: pow2_def)
  have r: "round_ties_even (\<bar>1\<bar> / pow2 (0 - 23)) = 8388608"
    by code_simp
  show ?thesis
    unfolding fround_def using round_to_eval [OF b r] by (simp add: pow2_def)
qed

lemma fround_half: "fround (1 / 2) = Num (1 / 2)"
proof -
  have b: "binade (- 126) 127 \<bar>1 / 2\<bar> = - 1"
    by (rule binade_normal) (simp_all add: pow2_def)
  have r: "round_ties_even (\<bar>1 / 2\<bar> / pow2 (- 1 - 23)) = 8388608"
    by code_simp
  show ?thesis
    unfolding fround_def using round_to_eval [OF b r] by (simp add: pow2_def)
qed

lemma fround_precise: "fround (1073741825 / 1073741824) = Num 1"
proof -
  have b: "binade (- 126) 127 \<bar>1073741825 / 1073741824\<bar> = 0"
    by (rule binade_normal) (simp_all add: pow2_def)
  have r: "round_ties_even (\<bar>1073741825 / 1073741824\<bar> / pow2 (0 - 23)) = 8388608"
    by code_simp
  show ?thesis
    unfolding fround_def using round_to_eval [OF b r] by (simp add: pow2_def)
qed

lemma fround_tenth: "fround (1 / 10) = Num (13421773 / 134217728)"
proof -
  have b: "binade (- 126) 127 \<bar>1 / 10\<bar> = - 4"
    by (rule binade_normal) (simp_all add: pow2_def)
  have r: "round_ties_even (\<bar>1 / 10\<bar> / pow2 (- 4 - 23)) = 13421773"
    by code_simp
  show ?thesis
    unfolding fround_def using round_to_eval [OF b r] by (simp add: pow2_def)
qed

lemma fround_tenth_binary64:
  "fround (3602879701896397 / 36028797018963968) = Num (13421773 / 134217728)"
proof -
  have b: "binade (- 126) 127 \<bar>3602879701896397 / 36028797018963968\<bar> = - 4"
    by (rule binade_normal) (simp_all add: pow2_def)
  have r: "round_ties_even (\<bar>3602879701896397 / 36028797018963968\<bar> / pow2 (- 4 - 23)) = 13421773"
    by code_simp
  show ?thesis
    unfolding fround_def using round_to_eval [OF b r] by (simp add: pow2_def)
qed

lemma round_to_eval_small:
  assumes "binade emin emax \<bar>x\<bar> = e" and "round_ties_even (\<bar>x\<bar> / pow2 (e - p)) = n"
    and "rat_of_int n * pow2 (e - p) \<le> 1" and "0 \<le> emax"
  shows "round_to p emin emax x
         = Num (if x < 0 then - (of_int n * pow2 (e - p)) else of_int n * pow2 (e - p))"
proof -
  have "pow2 0 < pow2 (emax + 1)"
    using assms(4) by (intro pow2_strict_mono) simp
  then have "rat_of_int n * pow2 (e - p) < pow2 (emax + 1)"
    using assms(3) by (simp add: pow2_def)
  with assms(1,2) show ?thesis
    by (rule round_to_eval)
qed

lemma dround_0: "dround 0 = Num 0"
proof -
  have b: "binade (- 1022) 1023 \<bar>0\<bar> = - 1022"
    by (rule binade_subnormal) (simp add: pow2_pos)
  have r: "round_ties_even (\<bar>0\<bar> / pow2 (- 1022 - 52)) = 0"
    by (simp add: round_ties_even_def)
  show ?thesis
    unfolding dround_def using round_to_eval_small [OF b r] by simp
qed

lemma dround_half: "dround (1 / 2) = Num (1 / 2)"
proof -
  have b: "binade (- 1022) 1023 \<bar>1 / 2\<bar> = - 1"
    by (rule binade_normal) (simp_all add: pow2_def)
  have r: "round_ties_even (\<bar>1 / 2\<bar> / pow2 (- 1 - 52)) = 4503599627370496"
    by code_simp
  show ?thesis
    unfolding dround_def using round_to_eval_small [OF b r] by (simp add: pow2_def)
qed

lemma dround_three_tenths:
  "dround (3602879701896397 / 36028797018963968 * 3)
   = Num (5404319552844596 / 18014398509481984)"
proof -
  have b: "binade (- 1022) 1023 \<bar>3602879701896397 / 36028797018963968 * 3\<bar> = - 2"
    by (rule binade_normal) (simp_all add: pow2_def)
  have r: "round_ties_even (\<bar>3602879701896397 / 36028797018963968 * 3\<bar> / pow2 (- 2 - 52))
      = 5404319552844596"
    by code_simp
  show ?thesis
    unfolding dround_def using round_to_eval_small [OF b r] by (simp add: pow2_def)
qed

lemma float32_exact [simp]:
  "float32 (Num 0) = Num 0" "float32 (Num 1) = Num 1" "float32 (Num (1 / 2)) = Num (1 / 2)"
  by (simp_all add: float32_def fround_0 fround_1 fround_half)

lemma times_exact [simp]:
  "js_times env h (Num 0) (Num (1 / 2)) = Num 0" "js_times env h (Num 1) (Num (1 / 2)) = Num (1 / 2)"
  by (simp_all add: js_times_def times_number_def to_number_def dround_0 dround_half)

lemmas run_simps =
  get_prop_def lookup_def first_elem_def iterate_def dechunk_def elements_def elem_at_def
  heap_of_def world_of_def empty_store_def log_def js_or_def delete_prop_def delete_props_def
  has_field_def Let_def Float32BufferAttribute_def to_number_def

section \<open>What a successful conversion does to the heap\<close>

lemma lookup_absent: "k \<notin> fst ` set fs \<Longrightarrow> lookup fs k = Undefined"
  by (auto simp: lookup_def split: option.splits dest: map_of_SomeD intro: rev_image_eqI)

lemma mesh_success:
  assumes "MeshToBufferGeometry env obj w = (Inr (Some r), w')"
  shows "\<exists>vs vertices w1 fs faces w2 faces_xs indices vertices_xs.
           truthy obj
         \<and> get_prop (heap w) obj ''vertices'' = Inr vs
         \<and> dechunk env vs w = (Inr vertices, w1)
         \<and> get_prop (heap w1) obj ''faces'' = Inr fs
         \<and> dechunk env fs w1 = (Inr faces, w2)
         \<and> elements (heap w2) faces = Some faces_xs
         \<and> faces_loop faces_xs 0 [] = Inr indices
         \<and> elements (heap w2) vertices = Some vertices_xs
         \<and> index (bufferGeometry r) = indices
         \<and> meta r = obj
         \<and> w' = w2\<lparr>heap := delete_prop ''faces'' obj (delete_prop ''vertices'' obj (heap w2))\<rparr>"
  using assms
  by (auto simp: MeshToBufferGeometry_def Let_def
      split: if_splits sum.splits prod.splits option.splits)

lemma lookup_present: "lookup fs k \<noteq> Undefined \<Longrightarrow> k \<in> fst ` set fs"
  using lookup_absent by blast

lemma dechunk_not_nullish:
  "dechunk env arr w = (Inr r, w') \<Longrightarrow> arr \<noteq> Undefined \<and> arr \<noteq> Null"
  by (auto simp: dechunk_def first_elem_def split: sum.splits)

lemma get_prop_defined_field:
  "get_prop h obj k = Inr v \<Longrightarrow> v \<noteq> Undefined \<Longrightarrow> has_field h obj k"
  by (cases obj) (auto simp: get_prop_def has_field_def split: hobj.splits intro: lookup_present)

lemma has_field_delete_prop:
  "has_field (delete_prop k obj h) v k' = (has_field h v k' \<and> \<not> (v = obj \<and> k' = k))"
  by (cases obj; cases v) (auto simp: has_field_def delete_prop_def split: hobj.splits)

lemma has_field_delete_props:
  "has_field (delete_props ks obj h) v k' = (has_field h v k' \<and> \<not> (v = obj \<and> k' \<in> set ks))"
  unfolding delete_props_def
  by (induction ks arbitrary: h) (auto simp: has_field_delete_prop)

lemma delete_prop_other:
  "Ref b \<noteq> obj \<Longrightarrow> delete_prop k obj h b = h b"
  by (cases obj) (auto simp: delete_prop_def split: hobj.splits)

lemma lookup_filter_other:
  "k' \<noteq> k \<Longrightarrow> lookup (filter (\<lambda>f. fst f \<noteq> k) fs) k' = lookup fs k'"
proof -
  assume ne: "k' \<noteq> k"
  have "map_of (filter (\<lambda>f. fst f \<noteq> k) fs) k' = map_of fs k'"
    using ne by (induction fs) auto
  then show ?thesis by (simp add: lookup_def)
qed

lemma get_prop_delete_prop:
  "k' \<noteq> k \<Longrightarrow> get_prop (delete_prop k obj h) v k' = get_prop h v k'"
  by (cases obj; cases v)
    (auto simp: get_prop_def delete_prop_def lookup_filter_other split: hobj.splits)

lemma resolveReference_heap: "resolveReference env obj w = (r, w') \<Longrightarrow> heap w' = heap w"
  by (auto simp: resolveReference_def split: sum.splits if_splits)

lemma resolveReference_not_nullish:
  "resolveReference env obj w = (Inr m, w') \<Longrightarrow> obj \<noteq> Undefined \<and> obj \<noteq> Null"
  by (auto simp: resolveReference_def get_prop_def split: sum.splits if_splits)

lemma mesh_success_heap:
  assumes "MeshToBufferGeometry env obj w = (Inr (Some r), w')"
  shows "meta r = obj"
    and "heap w' = delete_prop ''faces'' obj (delete_prop ''vertices'' obj (heap w))"
    and "has_field (heap w) obj ''vertices''" and "has_field (heap w) obj ''faces''"
proof -
  from mesh_success [OF assms] obtain vs vertices w1 fs faces w2 where
    m: "meta r = obj" "get_prop (heap w) obj ''vertices'' = Inr vs"
      "dechunk env vs w = (Inr vertices, w1)" "get_prop (heap w1) obj ''faces'' = Inr fs"
      "dechunk env fs w1 = (Inr faces, w2)"
      "w' = w2\<lparr>heap := delete_prop ''faces'' obj (delete_prop ''vertices'' obj (heap w2))\<rparr>"
    by blast
  have h1: "heap w1 = heap w" and h2: "heap w2 = heap w1"
    using m(3,5) by (auto dest: dechunk_heap)
  show "meta r = obj" by (rule m(1))
  show "heap w' = delete_prop ''faces'' obj (delete_prop ''vertices'' obj (heap w))"
    using m(6) h1 h2 by simp
  have "vs \<noteq> Undefined" "fs \<noteq> Undefined"
    using m(3,5) by (auto dest: dechunk_not_nullish)
  then show "has_field (heap w) obj ''vertices''" and "has_field (heap w) obj ''faces''"
    using m(2,4) h1 by (auto intro: get_prop_defined_field)
qed

lemma brep_success:
  assumes "BrepToBufferGeometry env obj w = (Inr (Some r), w')"
  shows "\<exists>dv dm m w1 r0 w2.
           get_prop (heap w) obj ''displayValue'' = Inr dv
         \<and> get_prop (heap w) obj ''displayMesh'' = Inr dm
         \<and> resolveReference env (js_or dv dm) w = (Inr m, w1)
         \<and> MeshToBufferGeometry env m w1 = (Inr (Some r0), w2)
         \<and> bufferGeometry r = bufferGeometry r0
         \<and> meta r = obj
         \<and> w' = w2\<lparr>heap := delete_props brep_fields obj (heap w2)\<rparr>"
  using assms
  by (auto simp: BrepToBufferGeometry_def split: if_splits sum.splits prod.splits option.splits)

lemma brep_success_heap:
  assumes "BrepToBufferGeometry env obj w = (Inr (Some r), w')"
  shows "meta r = obj"
    and "\<exists>m. heap w' = delete_props brep_fields obj
                 (delete_prop ''faces'' m (delete_prop ''vertices'' m (heap w)))"
    and "has_field (heap w) obj ''displayValue'' \<or> has_field (heap w) obj ''displayMesh''"
proof -
  from brep_success [OF assms] obtain dv dm m w1 r0 w2 where
    b: "get_prop (heap w) obj ''displayValue'' = Inr dv"
      "get_prop (heap w) obj ''displayMesh'' = Inr dm"
      "resolveReference env (js_or dv dm) w = (Inr m, w1)"
      "MeshToBufferGeometry env m w1 = (Inr (Some r0), w2)"
      "meta r = obj" "w' = w2\<lparr>heap := delete_props brep_fields obj (heap w2)\<rparr>"
    by blast
  have h1: "heap w1 = heap w"
    using b(3) by (rule resolveReference_heap)
  have h2: "heap w2 = delete_prop ''faces'' m (delete_prop ''vertices'' m (heap w))"
    using mesh_success_heap(2) [OF b(4)] h1 by simp
  show "meta r = obj" by (rule b(5))
  show "\<exists>m. heap w' = delete_props brep_fields obj
                 (delete_prop ''faces'' m (delete_prop ''vertices'' m (heap w)))"
    using b(6) h2 by auto
  have "js_or dv dm \<noteq> Undefined"
    using resolveReference_not_nullish [OF b(3)] by simp
  then have "dv \<noteq> Undefined \<or> dm \<noteq> Undefined"
    by (auto simp: js_or_def split: if_splits)
  then show "has_field (heap w) obj ''displayValue'' \<or> has_field (heap w) obj ''displayMesh''"
    using b(1,2) by (auto intro: get_prop_defined_field)
qed

lemma get_prop_frame:
  "(\<And>b. holder = Ref b \<Longrightarrow> h' b = h b) \<Longrightarrow> get_prop h' holder f = get_prop h holder f"
  by (cases holder) (auto simp: get_prop_def)

lemma delete_props_other:
  "Ref b \<noteq> obj \<Longrightarrow> delete_props ks obj h b = h b"
  unfolding delete_props_def
  by (induction ks arbitrary: h) (auto simp: delete_prop_other)

section \<open>The face loop decodes the flag-prefixed scheme\<close>

text \<open>
  The loop over the cursor \<open>k\<close> computes what the scheme of the specification describes:
  started at cursor \<open>k\<close> with the indices \<open>acc\<close> pushed so far, it decodes the rest of the
  buffer and appends the triangles, or fails with the decode error of the first bad flag.
\<close>

lemma faces_loop_spec:
  "faces_loop faces k acc =
     (case decode_spec (drop k faces) of Inl e \<Rightarrow> Inl e | Inr ts \<Rightarrow> Inr (acc @ flatten ts))"
proof (induction faces k acc rule: faces_loop.induct)
  case (1 faces k indices)
  show ?case
  proof (cases "k < length faces")
    case False
    then show ?thesis by (simp add: faces_loop.simps)
  next
    case True
    then have d: "drop k faces = elem_at faces k # drop (Suc k) faces"
      by (simp add: elem_at_def Cons_nth_drop_Suc)
    have e: "\<And>i. elem_at (drop (Suc k) faces) i = elem_at faces (k + Suc i)"
      by (auto simp: elem_at_def)
    have d3: "drop 3 (drop (Suc k) faces) = drop (k + 4) faces"
      and d4: "drop 4 (drop (Suc k) faces) = drop (k + 5) faces"
      by (simp_all add: add.commute)
    show ?thesis
    proof (cases "elem_at faces k = Num 1")
      case q: True
      show ?thesis
        using True q "1.IH"(1)
        by (subst faces_loop.simps) (simp add: d e d4 del: drop_drop split: sum.splits)
    next
      case nq: False
      show ?thesis
      proof (cases "elem_at faces k = Num 0")
        case t: True
        show ?thesis
          using True t "1.IH"(2)
          by (subst faces_loop.simps) (simp add: d e d3 del: drop_drop split: sum.splits)
      next
        case False
        with True nq show ?thesis
          by (subst faces_loop.simps) (simp add: d)
      qed
    qed
  qed
qed

text \<open>
  A conversion whose two buffers dechunk to arrays and whose face buffer decodes returns a
  wrapper whose index is the flattened triangle list, and deletes the two buffers from the
  source object.
\<close>

lemma mesh_run:
  assumes "truthy obj"
    and "get_prop (heap w) obj ''vertices'' = Inr vs"
    and "dechunk env vs w = (Inr vertices, w1)"
    and "get_prop (heap w1) obj ''faces'' = Inr fs"
    and "dechunk env fs w1 = (Inr fcs, w2)"
    and "elements (heap w2) fcs = Some faces"
    and "faces_loop faces 0 [] = Inr indices"
    and "elements (heap w2) vertices = Some vxs"
  shows "\<exists>pos. MeshToBufferGeometry env obj w =
           (Inr (Some \<lparr>bufferGeometry = \<lparr>index = indices, position = pos\<rparr>, meta = obj\<rparr>),
            w2\<lparr>heap := delete_prop ''faces'' obj (delete_prop ''vertices'' obj (heap w2))\<rparr>)"
proof -
  obtain u where "get_prop (heap w) obj ''units'' = Inr u"
    using get_prop_truthy [OF assms(1)] by blast
  then show ?thesis
    using assms by (simp add: MeshToBufferGeometry_def Let_def)
qed

text \<open>
  Claim C1. For every face buffer: the loop started at 0 yields the triangles of the
  flag-prefixed scheme, flattened; at a cursor past the end it stops; at a flag 0 it emits
  the next three values as one triangle and moves the cursor by 4; at a flag 1 it emits the
  next four values \<open>v0, v1, v2, v3\<close> as the triangles \<open>(v0, v1, v2)\<close> and \<open>(v0, v2, v3)\<close>
  and moves the cursor by 5; at any other flag it raises the decode error, and the Mesh
  conversion then ends with that error, returns no result and leaves the heap as it was.
  When the face buffer decodes to the triangles \<open>ts\<close> (and the vertex buffer is an array),
  the Mesh conversion returns a wrapper whose index is exactly \<open>ts\<close> flattened; and every
  wrapper that the Mesh conversion returns has as index the flattened triangles of the
  dechunked face buffer of its object. The buffer \<open>[1, 0,1,2,3]\<close> decodes to \<open>(0,1,2)\<close>,
  \<open>(0,2,3)\<close> and \<open>[0, 0,1,2]\<close> to \<open>(0,1,2)\<close>.
\<close>

theorem mesh_face_decoding:
  "faces_loop faces 0 [] = (case decode_spec faces of Inl e \<Rightarrow> Inl e | Inr ts \<Rightarrow> Inr (flatten ts))
   \<and> (length faces \<le> k \<longrightarrow> faces_loop faces k acc = Inr acc)
   \<and> (k < length faces \<and> elem_at faces k = Num 0 \<longrightarrow>
        faces_loop faces k acc =
          faces_loop faces (k + 4)
            (acc @ [elem_at faces (k + 1), elem_at faces (k + 2), elem_at faces (k + 3)]))
   \<and> (k < length faces \<and> elem_at faces k = Num 1 \<longrightarrow>
        faces_loop faces k acc =
          faces_loop faces (k + 5)
            (acc @ [elem_at faces (k + 1), elem_at faces (k + 2), elem_at faces (k + 3),
                    elem_at faces (k + 1), elem_at faces (k + 3), elem_at faces (k + 4)]))
   \<and> (k < length faces \<and> elem_at faces k \<noteq> Num 0 \<and> elem_at faces k \<noteq> Num 1 \<longrightarrow>
        faces_loop faces k acc = Inl (MeshTypeNotSupported (elem_at faces k)))
   \<and> (truthy obj \<and> get_prop (heap w) obj ''vertices'' = Inr vs
        \<and> dechunk env vs w = (Inr vertices, w1)
        \<and> get_prop (heap w1) obj ''faces'' = Inr fs
        \<and> dechunk env fs w1 = (Inr fcs, w2)
        \<and> elements (heap w2) fcs = Some faces
        \<and> faces_loop faces 0 [] = Inl e \<longrightarrow>
        MeshToBufferGeometry env obj w = (Inl e, w2) \<and> heap w2 = heap w)
   \<and> (truthy obj \<and> get_prop (heap w) obj ''vertices'' = Inr vs
        \<and> dechunk env vs w = (Inr vertices, w1)
        \<and> get_prop (heap w1) obj ''faces'' = Inr fs
        \<and> dechunk env fs w1 = (Inr fcs, w2)
        \<and> elements (heap w2) fcs = Some faces
        \<and> decode_spec faces = Inr ts
        \<and> elements (heap w2) vertices = Some vxs \<longrightarrow>
        (\<exists>pos. MeshToBufferGeometry env obj w =
           (Inr (Some \<lparr>bufferGeometry = \<lparr>index = flatten ts, position = pos\<rparr>, meta = obj\<rparr>),
            w2\<lparr>heap := delete_prop ''faces'' obj (delete_prop ''vertices'' obj (heap w2))\<rparr>)))
   \<and> (MeshToBufferGeometry env obj w = (Inr (Some r), w') \<longrightarrow>
        (\<exists>vs' vertices' w1' fs' fcs' w2' faces' ts'.
           get_prop (heap w) obj ''vertices'' = Inr vs'
         \<and> dechunk env vs' w = (Inr vertices', w1')
         \<and> get_prop (heap w1') obj ''faces'' = Inr fs'
         \<and> dechunk env fs' w1' = (Inr fcs', w2')
         \<and> elements (heap w2') fcs' = Some faces'
         \<and> decode_spec faces' = Inr ts'
         \<and> index (bufferGeometry r) = flatten ts'))
   \<and> faces_loop [Num 1, Num 0, Num 1, Num 2, Num 3] 0 []
         = Inr [Num 0, Num 1, Num 2, Num 0, Num 2, Num 3]
   \<and> faces_loop [Num 0, Num 0, Num 1, Num 2] 0 [] = Inr [Num 0, Num 1, Num 2]"
proof -
  have refine: "faces_loop faces 0 [] =
      (case decode_spec faces of Inl e \<Rightarrow> Inl e | Inr ts \<Rightarrow> Inr (flatten ts))"
    by (simp add: faces_loop_spec split: sum.splits)
  have fin: "length faces \<le> k \<longrightarrow> faces_loop faces k acc = Inr acc"
    by (subst faces_loop.simps) simp
  have tri: "k < length faces \<and> elem_at faces k = Num 0 \<longrightarrow>
        faces_loop faces k acc =
          faces_loop faces (k + 4)
            (acc @ [elem_at faces (k + 1), elem_at faces (k + 2), elem_at faces (k + 3)])"
    by (subst faces_loop.simps) simp
  have quad: "k < length faces \<and> elem_at faces k = Num 1 \<longrightarrow>
        faces_loop faces k acc =
          faces_loop faces (k + 5)
            (acc @ [elem_at faces (k + 1), elem_at faces (k + 2), elem_at faces (k + 3),
                    elem_at faces (k + 1), elem_at faces (k + 3), elem_at faces (k + 4)])"
    by (subst faces_loop.simps) simp
  have other: "k < length faces \<and> elem_at faces k \<noteq> Num 0 \<and> elem_at faces k \<noteq> Num 1 \<longrightarrow>
        faces_loop faces k acc = Inl (MeshTypeNotSupported (elem_at faces k))"
    by (subst faces_loop.simps) simp
  have abort: "truthy obj \<and> get_prop (heap w) obj ''vertices'' = Inr vs
        \<and> dechunk env vs w = (Inr vertices, w1)
        \<and> get_prop (heap w1) obj ''faces'' = Inr fs
        \<and> dechunk env fs w1 = (Inr fcs, w2)
        \<and> elements (heap w2) fcs = Some faces
        \<and> faces_loop faces 0 [] = Inl e \<longrightarrow>
        MeshToBufferGeometry env obj w = (Inl e, w2) \<and> heap w2 = heap w"
  proof (intro impI, elim conjE)
    assume a: "truthy obj" "get_prop (heap w) obj ''vertices'' = Inr vs"
      "dechunk env vs w = (Inr vertices, w1)" "get_prop (heap w1) obj ''faces'' = Inr fs"
      "dechunk env fs w1 = (Inr fcs, w2)" "elements (heap w2) fcs = Some faces"
      "faces_loop faces 0 [] = Inl e"
    have "heap w1 = heap w" and "heap w2 = heap w1"
      using a(3,5) by (auto dest: dechunk_heap)
    then have "heap w2 = heap w" by simp
    moreover have "MeshToBufferGeometry env obj w = (Inl e, w2)"
      using a by (rule mesh_abort)
    ultimately show "MeshToBufferGeometry env obj w = (Inl e, w2) \<and> heap w2 = heap w"
      by simp
  qed
  have success: "truthy obj \<and> get_prop (heap w) obj ''vertices'' = Inr vs
        \<and> dechunk env vs w = (Inr vertices, w1)
        \<and> get_prop (heap w1) obj ''faces'' = Inr fs
        \<and> dechunk env fs w1 = (Inr fcs, w2)
        \<and> elements (heap w2) fcs = Some faces
        \<and> decode_spec faces = Inr ts
        \<and> elements (heap w2) vertices = Some vxs \<longrightarrow>
        (\<exists>pos. MeshToBufferGeometry env obj w =
           (Inr (Some \<lparr>bufferGeometry = \<lparr>index = flatten ts, position = pos\<rparr>, meta = obj\<rparr>),
            w2\<lparr>heap := delete_prop ''faces'' obj (delete_prop ''vertices'' obj (heap w2))\<rparr>))"
  proof (intro impI, elim conjE)
    assume a: "truthy obj" "get_prop (heap w) obj ''vertices'' = Inr vs"
      "dechunk env vs w = (Inr vertices, w1)" "get_prop (heap w1) obj ''faces'' = Inr fs"
      "dechunk env fs w1 = (Inr fcs, w2)" "elements (heap w2) fcs = Some faces"
      "decode_spec faces = Inr ts" "elements (heap w2) vertices = Some vxs"
    have "faces_loop faces 0 [] = Inr (flatten ts)"
      using refine a(7) by simp
    with a show "\<exists>pos. MeshToBufferGeometry env obj w =
           (Inr (Some \<lparr>bufferGeometry = \<lparr>index = flatten ts, position = pos\<rparr>, meta = obj\<rparr>),
            w2\<lparr>heap := delete_prop ''faces'' obj (delete_prop ''vertices'' obj (heap w2))\<rparr>)"
      by (intro mesh_run)
  qed
  have converse: "MeshToBufferGeometry env obj w = (Inr (Some r), w') \<longrightarrow>
        (\<exists>vs' vertices' w1' fs' fcs' w2' faces' ts'.
           get_prop (heap w) obj ''vertices'' = Inr vs'
         \<and> dechunk env vs' w = (Inr vertices', w1')
         \<and> get_prop (heap w1') obj ''faces'' = Inr fs'
         \<and> dechunk env fs' w1' = (Inr fcs', w2')
         \<and> elements (heap w2') fcs' = Some faces'
         \<and> decode_spec faces' = Inr ts'
         \<and> index (bufferGeometry r) = flatten ts')"
  proof
    assume "MeshToBufferGeometry env obj w = (Inr (Some r), w')"
    from mesh_success [OF this] obtain vs' vertices' w1' fs' fcs' w2' faces' indices where
      m: "get_prop (heap w) obj ''vertices'' = Inr vs'"
        "dechunk env vs' w = (Inr vertices', w1')"
        "get_prop (heap w1') obj ''faces'' = Inr fs'"
        "dechunk env fs' w1' = (Inr fcs', w2')"
        "elements (heap w2') fcs' = Some faces'"
        "faces_loop faces' 0 [] = Inr indices"
        "index (bufferGeometry r) = indices"
      by blast
    obtain ts' where "decode_spec faces' = Inr ts'" "indices = flatten ts'"
      using m(6) by (auto simp: faces_loop_spec split: sum.splits)
    with m show "\<exists>vs' vertices' w1' fs' fcs' w2' faces' ts'.
           get_prop (heap w) obj ''vertices'' = Inr vs'
         \<and> dechunk env vs' w = (Inr vertices', w1')
         \<and> get_prop (heap w1') obj ''faces'' = Inr fs'
         \<and> dechunk env fs' w1' = (Inr fcs', w2')
         \<and> elements (heap w2') fcs' = Some faces'
         \<and> decode_spec faces' = Inr ts'
         \<and> index (bufferGeometry r) = flatten ts'"
      by blast
  qed
  have ex1: "faces_loop [Num 1, Num 0, Num 1, Num 2, Num 3] 0 []
         = Inr [Num 0, Num 1, Num 2, Num 0, Num 2, Num 3]"
    by (simp add: faces_loop_spec elem_at_def)
  have ex2: "faces_loop [Num 0, Num 0, Num 1, Num 2] 0 [] = Inr [Num 0, Num 1, Num 2]"
    by (simp add: faces_loop_spec elem_at_def)
  show ?thesis
    using refine fin tri quad other abort success converse ex1 ex2 by blast
qed

theorem mesh_face_decoding_witness:
  "faces_loop [Num 2, Num 0, Num 1, Num 2] 0 [] = Inl (MeshTypeNotSupported (Num 2))
   \<and> MeshToBufferGeometry empty_store (Ref 10)
         (world_of [(10, Obj [(''vertices'', Ref 11), (''faces'', Ref 12)]),
                    (11, Arr [Num 0, Num 0, Num 0]), (12, Arr [Num 2, Num 0, Num 1, Num 2])])
       = (Inl (MeshTypeNotSupported (Num 2)),
          world_of [(10, Obj [(''vertices'', Ref 11), (''faces'', Ref 12)]),
                    (11, Arr [Num 0, Num 0, Num 0]), (12, Arr [Num 2, Num 0, Num 1, Num 2])])
   \<and> (\<exists>pos. MeshToBufferGeometry empty_store (Ref 10) (world_of mesh_example) =
         (Inr (Some \<lparr>bufferGeometry =
                 \<lparr>index = [Num 0, Num 1, Num 2, Num 0, Num 2, Num 3], position = pos\<rparr>,
               meta = Ref 10\<rparr>),
          \<lparr>heap = (heap_of mesh_example)
             (10 := Obj [(''id'', Str ''m1''), (''speckle_type'', Str ''Objects.Geometry.Mesh''),
                         (''units'', Str ''m'')]),
           trace = []\<rparr>))
   \<and> (\<exists>faces ts. elements (heap (world_of mesh_example)) (Same (Ref 12)) = Some faces
         \<and> decode_spec faces = Inr ts
         \<and> [Num 0, Num 1, Num 2, Num 0, Num 2, Num 3] = flatten ts)
   \<and> faces_loop [Num 0, Num 4, Num 5, Num 6] 0 [Num 9]
         = faces_loop [Num 0, Num 4, Num 5, Num 6] 4 [Num 9, Num 4, Num 5, Num 6]
   \<and> faces_loop [Num 1, Num 4, Num 5, Num 6, Num 7] 0 [Num 9]
         = faces_loop [Num 1, Num 4, Num 5, Num 6, Num 7] 5
             [Num 9, Num 4, Num 5, Num 6, Num 4, Num 6, Num 7]
   \<and> faces_loop [Num 1, Num 4, Num 5, Num 6, Num 7] 5 [Num 9] = Inr [Num 9]"
proof -
  let ?W = "world_of [(10, Obj [(''vertices'', Ref 11), (''faces'', Ref 12)]),
                    (11, Arr [Num 0, Num 0, Num 0]), (12, Arr [Num 2, Num 0, Num 1, Num 2])]"
  note bad = mesh_face_decoding [where faces = "[Num 2, Num 0, Num 1, Num 2]" and k = 0
      and acc = "[]" and obj = "Ref 10" and w = ?W and ?vs = "Ref 11" and env = empty_store
      and vertices = "Same (Ref 11)" and ?w1.0 = ?W and fs = "Ref 12" and fcs = "Same (Ref 12)"
      and ?w2.0 = ?W and e = "MeshTypeNotSupported (Num 2)"]
  have flag: "faces_loop [Num 2, Num 0, Num 1, Num 2] 0 [] = Inl (MeshTypeNotSupported (Num 2))"
    using bad by (simp add: elem_at_def)
  have pre: "truthy (Ref 10) \<and> get_prop (heap ?W) (Ref 10) ''vertices'' = Inr (Ref 11)
        \<and> dechunk empty_store (Ref 11) ?W = (Inr (Same (Ref 11)), ?W)
        \<and> get_prop (heap ?W) (Ref 10) ''faces'' = Inr (Ref 12)
        \<and> dechunk empty_store (Ref 12) ?W = (Inr (Same (Ref 12)), ?W)
        \<and> elements (heap ?W) (Same (Ref 12)) = Some [Num 2, Num 0, Num 1, Num 2]"
    by (simp add: run_simps)
  have mesh: "MeshToBufferGeometry empty_store (Ref 10) ?W = (Inl (MeshTypeNotSupported (Num 2)), ?W)"
    using bad pre flag by blast
  let ?M = "world_of mesh_example"
  let ?vxs = "[Num 0, Num 0, Num 0, Num 1, Num 0, Num 0, Num 1, Num 1, Num 0,
               Num 0, Num 1, Num 0]"
  let ?ts = "[(Num 0, Num 1, Num 2), (Num 0, Num 2, Num 3)]"
  let ?M' = "\<lparr>heap = (heap_of mesh_example)
             (10 := Obj [(''id'', Str ''m1''), (''speckle_type'', Str ''Objects.Geometry.Mesh''),
                         (''units'', Str ''m'')]),
           trace = []\<rparr>"
  note good = mesh_face_decoding [where faces = "[Num 1, Num 0, Num 1, Num 2, Num 3]"
      and obj = "Ref 10" and w = ?M and ?vs = "Ref 11" and env = empty_store
      and vertices = "Same (Ref 11)" and ?w1.0 = ?M and fs = "Ref 12" and fcs = "Same (Ref 12)"
      and ?w2.0 = ?M and ts = ?ts and vxs = ?vxs]
  have pre2: "truthy (Ref 10) \<and> get_prop (heap ?M) (Ref 10) ''vertices'' = Inr (Ref 11)
        \<and> dechunk empty_store (Ref 11) ?M = (Inr (Same (Ref 11)), ?M)
        \<and> get_prop (heap ?M) (Ref 10) ''faces'' = Inr (Ref 12)
        \<and> dechunk empty_store (Ref 12) ?M = (Inr (Same (Ref 12)), ?M)
        \<and> elements (heap ?M) (Same (Ref 12)) = Some [Num 1, Num 0, Num 1, Num 2, Num 3]
        \<and> decode_spec [Num 1, Num 0, Num 1, Num 2, Num 3] = Inr ?ts
        \<and> elements (heap ?M) (Same (Ref 11)) = Some ?vxs"
    by (simp add: run_simps mesh_example_def)
  have del: "?M\<lparr>heap := delete_prop ''faces'' (Ref 10) (delete_prop ''vertices'' (Ref 10) (heap ?M))\<rparr>
      = ?M'"
    by (simp add: run_simps mesh_example_def)
  have run: "\<exists>pos. MeshToBufferGeometry empty_store (Ref 10) ?M =
         (Inr (Some \<lparr>bufferGeometry =
                 \<lparr>index = [Num 0, Num 1, Num 2, Num 0, Num 2, Num 3], position = pos\<rparr>,
               meta = Ref 10\<rparr>), ?M')"
  proof -
    from good pre2 have "\<exists>pos. MeshToBufferGeometry empty_store (Ref 10) ?M =
        (Inr (Some \<lparr>bufferGeometry = \<lparr>index = flatten ?ts, position = pos\<rparr>, meta = Ref 10\<rparr>),
         ?M\<lparr>heap := delete_prop ''faces'' (Ref 10) (delete_prop ''vertices'' (Ref 10) (heap ?M))\<rparr>)"
      by blast
    then show ?thesis
      unfolding del by simp
  qed
  then obtain pos where r: "MeshToBufferGeometry empty_store (Ref 10) ?M =
         (Inr (Some \<lparr>bufferGeometry =
                 \<lparr>index = [Num 0, Num 1, Num 2, Num 0, Num 2, Num 3], position = pos\<rparr>,
               meta = Ref 10\<rparr>), ?M')"
    by blast
  have inv: "\<exists>faces ts. elements (heap ?M) (Same (Ref 12)) = Some faces
         \<and> decode_spec faces = Inr ts
         \<and> [Num 0, Num 1, Num 2, Num 0, Num 2, Num 3] = flatten ts"
  proof -
    note mesh_face_decoding [where obj = "Ref 10" and w = ?M and env = empty_store
        and r = "\<lparr>bufferGeometry =
                 \<lparr>index = [Num 0, Num 1, Num 2, Num 0, Num 2, Num 3], position = pos\<rparr>,
               meta = Ref 10\<rparr>" and w' = ?M']
    note this [THEN conjunct2, THEN conjunct2, THEN conjunct2, THEN conjunct2, THEN conjunct2,
        THEN conjunct2, THEN conjunct2, THEN conjunct1, rule_format, OF r]
    then obtain vs' vertices' w1' fs' fcs' w2' faces' ts' where
      m: "get_prop (heap ?M) (Ref 10) ''vertices'' = Inr vs'"
        "dechunk empty_store vs' ?M = (Inr vertices', w1')"
        "get_prop (heap w1') (Ref 10) ''faces'' = Inr fs'"
        "dechunk empty_store fs' w1' = (Inr fcs', w2')"
        "elements (heap w2') fcs' = Some faces'"
        "decode_spec faces' = Inr ts'"
        "[Num 0, Num 1, Num 2, Num 0, Num 2, Num 3] = flatten ts'"
      by auto
    have "vs' = Ref 11" using m(1) pre2 by simp
    then have "w1' = ?M" using m(2) pre2 by simp
    then have "fs' = Ref 12" using m(3) pre2 by simp
    then have "fcs' = Same (Ref 12)" "w2' = ?M" using m(4) pre2 \<open>w1' = ?M\<close> by simp_all
    then show ?thesis using m(5,6,7) by blast
  qed
  have tri: "faces_loop [Num 0, Num 4, Num 5, Num 6] 0 [Num 9]
         = faces_loop [Num 0, Num 4, Num 5, Num 6] 4 [Num 9, Num 4, Num 5, Num 6]"
    using mesh_face_decoding [where faces = "[Num 0, Num 4, Num 5, Num 6]" and k = 0
        and acc = "[Num 9]"]
    by (simp add: elem_at_def)
  have quad: "faces_loop [Num 1, Num 4, Num 5, Num 6, Num 7] 0 [Num 9]
         = faces_loop [Num 1, Num 4, Num 5, Num 6, Num 7] 5
             [Num 9, Num 4, Num 5, Num 6, Num 4, Num 6, Num 7]"
    using mesh_face_decoding [where faces = "[Num 1, Num 4, Num 5, Num 6, Num 7]" and k = 0
        and acc = "[Num 9]"]
    by (simp add: elem_at_def)
  have fin: "faces_loop [Num 1, Num 4, Num 5, Num 6, Num 7] 5 [Num 9] = Inr [Num 9]"
    using mesh_face_decoding [where faces = "[Num 1, Num 4, Num 5, Num 6, Num 7]" and k = 5
        and acc = "[Num 9]"]
    by simp
  show ?thesis
    using flag mesh run inv tri quad fin by blast
qed

section \<open>The example conversions\<close>

lemma mesh_example_run:
  "MeshToBufferGeometry empty_store (Ref 10) (world_of mesh_example)
   = (Inr (Some \<lparr>bufferGeometry =
          \<lparr>index = [Num 0, Num 1, Num 2, Num 0, Num 2, Num 3],
           position = [Num 0, Num 0, Num 0, Num 1, Num 0, Num 0, Num 1, Num 1, Num 0,
                       Num 0, Num 1, Num 0]\<rparr>,
        meta = Ref 10\<rparr>),
      \<lparr>heap = (heap_of mesh_example)
         (10 := Obj [(''id'', Str ''m1''), (''speckle_type'', Str ''Objects.Geometry.Mesh''),
                     (''units'', Str ''m'')]),
       trace = []\<rparr>)"
  by (simp add: MeshToBufferGeometry_def mesh_example_def run_simps faces_loop_spec)

lemma inner_mesh_run:
  "MeshToBufferGeometry empty_store (Ref 21) (world_of brep_example)
   = (Inr (Some \<lparr>bufferGeometry =
          \<lparr>index = [Num 0, Num 1, Num 2],
           position = [Num 0, Num 0, Num 0, Num 1, Num 0, Num 0, Num 1, Num 1, Num 0]\<rparr>,
        meta = Ref 21\<rparr>),
      \<lparr>heap = (heap_of brep_example)(21 := Obj [(''id'', Str ''m2'')]), trace = []\<rparr>)"
  by (simp add: MeshToBufferGeometry_def brep_example_def run_simps faces_loop_spec)

lemma brep_delete:
  "delete_props brep_fields (Ref 20) ((heap_of brep_example)(21 := Obj [(''id'', Str ''m2'')]))
   = (heap_of brep_example)
         (21 := Obj [(''id'', Str ''m2'')],
          20 := Obj [(''id'', Str ''b1''), (''speckle_type'', Str ''Objects.Geometry.Brep'')])"
  by (simp add: brep_example_def brep_fields_def delete_props_def delete_prop_def heap_of_def)

lemma brep_example_run:
  "BrepToBufferGeometry empty_store (Ref 20) (world_of brep_example)
   = (Inr (Some \<lparr>bufferGeometry =
          \<lparr>index = [Num 0, Num 1, Num 2],
           position = [Num 0, Num 0, Num 0, Num 1, Num 0, Num 0, Num 1, Num 1, Num 0]\<rparr>,
        meta = Ref 20\<rparr>),
      \<lparr>heap = (heap_of brep_example)
         (21 := Obj [(''id'', Str ''m2'')],
          20 := Obj [(''id'', Str ''b1''), (''speckle_type'', Str ''Objects.Geometry.Brep'')]),
       trace = []\<rparr>)"
proof -
  have g: "get_prop (heap (world_of brep_example)) (Ref 20) ''displayValue'' = Inr (Ref 21)"
    "get_prop (heap (world_of brep_example)) (Ref 20) ''displayMesh'' = Inr Undefined"
    "get_prop (heap (world_of brep_example)) (Ref 21) ''referencedId'' = Inr Undefined"
    by (simp_all add: brep_example_def run_simps)
  have r: "resolveReference empty_store (Ref 21) (world_of brep_example)
      = (Inr (Ref 21), world_of brep_example)"
    by (simp add: resolveReference_def g)
  show ?thesis
    by (simp add: BrepToBufferGeometry_def g js_or_def r inner_mesh_run brep_delete)
qed

lemma scene_example_run:
  "MeshToBufferGeometry empty_store (Ref 32) (world_of scene_example)
   = (Inr (Some \<lparr>bufferGeometry =
          \<lparr>index = [Num 0, Num 1, Num 2],
           position = [Num 0, Num 0, Num 0, Num 1, Num 0, Num 0, Num 1, Num 1, Num 0]\<rparr>,
        meta = Ref 32\<rparr>),
      \<lparr>heap = (heap_of scene_example)(32 := Obj [(''id'', Str ''m3'')]), trace = []\<rparr>)"
  by (simp add: MeshToBufferGeometry_def scene_example_def run_simps faces_loop_spec)

section \<open>Converted metadata and the mutation of the source node\<close>

text \<open>
  Claim C6. Whenever the Mesh converter returns a wrapped result, the object that is its
  metadata has no field \<open>vertices\<close> and no field \<open>faces\<close> in the heap the conversion
  leaves; whenever the Brep converter returns a wrapped result, its metadata has none of
  the fields \<open>displayMesh\<close>, \<open>displayValue\<close>, \<open>Edges\<close>, \<open>Faces\<close>, \<open>Loops\<close>, \<open>Trims\<close>,
  \<open>Curve2D\<close>, \<open>Curve3D\<close>, \<open>Surfaces\<close>, \<open>Vertices\<close>.
\<close>

theorem metadata_drops_geometry_fields:
  "(MeshToBufferGeometry env obj w = (Inr (Some r), w') \<longrightarrow>
      \<not> has_field (heap w') (meta r) ''vertices'' \<and> \<not> has_field (heap w') (meta r) ''faces'')
   \<and> (BrepToBufferGeometry env obj w = (Inr (Some r), w') \<longrightarrow>
      (\<forall>k \<in> set [''displayMesh'', ''displayValue'', ''Edges'', ''Faces'', ''Loops'', ''Trims'',
                  ''Curve2D'', ''Curve3D'', ''Surfaces'', ''Vertices''].
         \<not> has_field (heap w') (meta r) k))"
proof (intro conjI impI)
  assume m: "MeshToBufferGeometry env obj w = (Inr (Some r), w')"
  show "\<not> has_field (heap w') (meta r) ''vertices''"
    using mesh_success_heap(1,2) [OF m] by (simp add: has_field_delete_prop)
  show "\<not> has_field (heap w') (meta r) ''faces''"
    using mesh_success_heap(1,2) [OF m] by (simp add: has_field_delete_prop)
next
  assume b: "BrepToBufferGeometry env obj w = (Inr (Some r), w')"
  from brep_success [OF b] obtain w2 where
    "meta r = obj" "w' = w2\<lparr>heap := delete_props brep_fields obj (heap w2)\<rparr>"
    by blast
  then have "\<forall>k \<in> set brep_fields. \<not> has_field (heap w') (meta r) k"
    by (simp add: has_field_delete_props)
  then show "\<forall>k \<in> set [''displayMesh'', ''displayValue'', ''Edges'', ''Faces'', ''Loops'',
                  ''Trims'', ''Curve2D'', ''Curve3D'', ''Surfaces'', ''Vertices''].
         \<not> has_field (heap w') (meta r) k"
    by (simp only: brep_fields_def)
qed

theorem metadata_drops_geometry_fields_witness:
  "MeshToBufferGeometry empty_store (Ref 10) (world_of mesh_example)
     = (Inr (Some \<lparr>bufferGeometry =
          \<lparr>index = [Num 0, Num 1, Num 2, Num 0, Num 2, Num 3],
           position = [Num 0, Num 0, Num 0, Num 1, Num 0, Num 0, Num 1, Num 1, Num 0,
                       Num 0, Num 1, Num 0]\<rparr>,
        meta = Ref 10\<rparr>),
      \<lparr>heap = (heap_of mesh_example)
         (10 := Obj [(''id'', Str ''m1''), (''speckle_type'', Str ''Objects.Geometry.Mesh''),
                     (''units'', Str ''m'')]),
       trace = []\<rparr>)
   \<and> \<not> has_field ((heap_of mesh_example)
         (10 := Obj [(''id'', Str ''m1''), (''speckle_type'', Str ''Objects.Geometry.Mesh''),
                     (''units'', Str ''m'')])) (Ref 10) ''vertices''
   \<and> \<not> has_field ((heap_of mesh_example)
         (10 := Obj [(''id'', Str ''m1''), (''speckle_type'', Str ''Objects.Geometry.Mesh''),
                     (''units'', Str ''m'')])) (Ref 10) ''faces''
   \<and> BrepToBufferGeometry empty_store (Ref 20) (world_of brep_example)
     = (Inr (Some \<lparr>bufferGeometry =
          \<lparr>index = [Num 0, Num 1, Num 2],
           position = [Num 0, Num 0, Num 0, Num 1, Num 0, Num 0, Num 1, Num 1, Num 0]\<rparr>,
        meta = Ref 20\<rparr>),
      \<lparr>heap = (heap_of brep_example)
         (21 := Obj [(''id'', Str ''m2'')],
          20 := Obj [(''id'', Str ''b1''), (''speckle_type'', Str ''Objects.Geometry.Brep'')]),
       trace = []\<rparr>)
   \<and> \<not> has_field ((heap_of brep_example)
         (21 := Obj [(''id'', Str ''m2'')],
          20 := Obj [(''id'', Str ''b1''), (''speckle_type'', Str ''Objects.Geometry.Brep'')]))
        (Ref 20) ''displayValue''
   \<and> \<not> has_field ((heap_of brep_example)
         (21 := Obj [(''id'', Str ''m2'')],
          20 := Obj [(''id'', Str ''b1''), (''speckle_type'', Str ''Objects.Geometry.Brep'')]))
        (Ref 20) ''Edges''
   \<and> \<not> has_field ((heap_of brep_example)
         (21 := Obj [(''id'', Str ''m2'')],
          20 := Obj [(''id'', Str ''b1''), (''speckle_type'', Str ''Objects.Geometry.Brep'')]))
        (Ref 20) ''Vertices''"
proof -
  note m = metadata_drops_geometry_fields [THEN conjunct1, rule_format, OF mesh_example_run]
  note b = metadata_drops_geometry_fields [THEN conjunct2, rule_format, OF brep_example_run]
  have m1: "\<not> has_field ((heap_of mesh_example)
         (10 := Obj [(''id'', Str ''m1''), (''speckle_type'', Str ''Objects.Geometry.Mesh''),
                     (''units'', Str ''m'')])) (Ref 10) ''vertices''"
    and m2: "\<not> has_field ((heap_of mesh_example)
         (10 := Obj [(''id'', Str ''m1''), (''speckle_type'', Str ''Objects.Geometry.Mesh''),
                     (''units'', Str ''m'')])) (Ref 10) ''faces''"
    using m by simp_all
  have b1: "\<not> has_field ((heap_of brep_example)
         (21 := Obj [(''id'', Str ''m2'')],
          20 := Obj [(''id'', Str ''b1''), (''speckle_type'', Str ''Objects.Geometry.Brep'')]))
        (Ref 20) ''displayValue''"
    using b [of "''displayValue''"] by simp
  have b2: "\<not> has_field ((heap_of brep_example)
         (21 := Obj [(''id'', Str ''m2'')],
          20 := Obj [(''id'', Str ''b1''), (''speckle_type'', Str ''Objects.Geometry.Brep'')]))
        (Ref 20) ''Edges''"
    using b [of "''Edges''"] by simp
  have b3: "\<not> has_field ((heap_of brep_example)
         (21 := Obj [(''id'', Str ''m2'')],
          20 := Obj [(''id'', Str ''b1''), (''speckle_type'', Str ''Objects.Geometry.Brep'')]))
        (Ref 20) ''Vertices''"
    using b [of "''Vertices''"] by simp
  show ?thesis
    by (intro conjI mesh_example_run brep_example_run m1 m2 b1 b2 b3)
qed

text \<open>
  Claim C10. Conversion mutates its input in place. After a successful Mesh conversion the
  metadata of the result is the very value that was passed in, the source object carried
  \<open>vertices\<close> and \<open>faces\<close> before and carries neither afterwards, the heap differs from the
  earlier one by exactly these two deletions, and whoever held a reference to the node in
  a field still holds it, now leading to the object without the fields. After a successful
  Brep conversion the metadata is the very value passed in, the source object carried a
  display value or display mesh before and carries none of the ten fields afterwards, and
  the heap differs from the earlier one by the deletions on the source object and by the
  Mesh conversion's deletions on the display mesh \<open>m\<close>.
\<close>

theorem conversion_mutates_source_node:
  "(MeshToBufferGeometry env obj w = (Inr (Some r), w') \<longrightarrow>
      meta r = obj
    \<and> has_field (heap w) obj ''vertices'' \<and> has_field (heap w) obj ''faces''
    \<and> \<not> has_field (heap w') obj ''vertices'' \<and> \<not> has_field (heap w') obj ''faces''
    \<and> heap w' = delete_prop ''faces'' obj (delete_prop ''vertices'' obj (heap w))
    \<and> (\<forall>holder f. holder \<noteq> obj \<and> get_prop (heap w) holder f = Inr obj \<longrightarrow>
           get_prop (heap w') holder f = Inr obj))
   \<and> (BrepToBufferGeometry env obj w = (Inr (Some r), w') \<longrightarrow>
      meta r = obj
    \<and> (has_field (heap w) obj ''displayValue'' \<or> has_field (heap w) obj ''displayMesh'')
    \<and> (\<forall>k \<in> set brep_fields. \<not> has_field (heap w') obj k)
    \<and> (\<exists>m. heap w' = delete_props brep_fields obj
                 (delete_prop ''faces'' m (delete_prop ''vertices'' m (heap w)))
           \<and> (\<forall>holder f. holder \<noteq> obj \<and> holder \<noteq> m \<and> get_prop (heap w) holder f = Inr obj \<longrightarrow>
                 get_prop (heap w') holder f = Inr obj)))"
proof (intro conjI impI)
  assume m: "MeshToBufferGeometry env obj w = (Inr (Some r), w')"
  note h = mesh_success_heap [OF m]
  show "meta r = obj" by (rule h(1))
  show "has_field (heap w) obj ''vertices''" by (rule h(3))
  show "has_field (heap w) obj ''faces''" by (rule h(4))
  show "\<not> has_field (heap w') obj ''vertices''"
    using h(2) by (simp add: has_field_delete_prop)
  show "\<not> has_field (heap w') obj ''faces''"
    using h(2) by (simp add: has_field_delete_prop)
  show "heap w' = delete_prop ''faces'' obj (delete_prop ''vertices'' obj (heap w))"
    by (rule h(2))
  show "\<forall>holder f. holder \<noteq> obj \<and> get_prop (heap w) holder f = Inr obj \<longrightarrow>
           get_prop (heap w') holder f = Inr obj"
  proof (intro allI impI, elim conjE)
    fix holder f
    assume ne: "holder \<noteq> obj" and g: "get_prop (heap w) holder f = Inr obj"
    have "get_prop (heap w') holder f = get_prop (heap w) holder f"
      using ne h(2) by (intro get_prop_frame) (simp add: delete_prop_other)
    then show "get_prop (heap w') holder f = Inr obj"
      using g by simp
  qed
next
  assume b: "BrepToBufferGeometry env obj w = (Inr (Some r), w')"
  note h = brep_success_heap [OF b]
  show "meta r = obj" by (rule h(1))
  show "has_field (heap w) obj ''displayValue'' \<or> has_field (heap w) obj ''displayMesh''"
    by (rule h(3))
  from h(2) obtain m where hm: "heap w' = delete_props brep_fields obj
                 (delete_prop ''faces'' m (delete_prop ''vertices'' m (heap w)))"
    by blast
  show "\<forall>k \<in> set brep_fields. \<not> has_field (heap w') obj k"
    using hm by (simp add: has_field_delete_props)
  have "\<forall>holder f. holder \<noteq> obj \<and> holder \<noteq> m \<and> get_prop (heap w) holder f = Inr obj \<longrightarrow>
                 get_prop (heap w') holder f = Inr obj"
  proof (intro allI impI, elim conjE)
    fix holder f
    assume ne: "holder \<noteq> obj" "holder \<noteq> m" and g: "get_prop (heap w) holder f = Inr obj"
    have "get_prop (heap w') holder f = get_prop (heap w) holder f"
      using ne hm by (intro get_prop_frame) (simp add: delete_prop_other delete_props_other)
    then show "get_prop (heap w') holder f = Inr obj"
      using g by simp
  qed
  with hm show "\<exists>m. heap w' = delete_props brep_fields obj
                 (delete_prop ''faces'' m (delete_prop ''vertices'' m (heap w)))
           \<and> (\<forall>holder f. holder \<noteq> obj \<and> holder \<noteq> m \<and> get_prop (heap w) holder f = Inr obj \<longrightarrow>
                 get_prop (heap w') holder f = Inr obj)"
    by blast
qed

theorem conversion_mutates_source_node_witness:
  "MeshToBufferGeometry empty_store (Ref 32) (world_of scene_example)
   = (Inr (Some \<lparr>bufferGeometry =
          \<lparr>index = [Num 0, Num 1, Num 2],
           position = [Num 0, Num 0, Num 0, Num 1, Num 0, Num 0, Num 1, Num 1, Num 0]\<rparr>,
        meta = Ref 32\<rparr>),
      \<lparr>heap = (heap_of scene_example)(32 := Obj [(''id'', Str ''m3'')]), trace = []\<rparr>)
   \<and> get_prop (heap_of scene_example) (Ref 31) ''again'' = Inr (Ref 32)
   \<and> has_field (heap_of scene_example) (Ref 32) ''vertices''
   \<and> get_prop ((heap_of scene_example)(32 := Obj [(''id'', Str ''m3'')])) (Ref 31) ''again''
       = Inr (Ref 32)
   \<and> \<not> has_field ((heap_of scene_example)(32 := Obj [(''id'', Str ''m3'')])) (Ref 32) ''vertices''
   \<and> \<not> has_field ((heap_of scene_example)(32 := Obj [(''id'', Str ''m3'')])) (Ref 32) ''faces''
   \<and> BrepToBufferGeometry empty_store (Ref 20) (world_of brep_example)
     = (Inr (Some \<lparr>bufferGeometry =
          \<lparr>index = [Num 0, Num 1, Num 2],
           position = [Num 0, Num 0, Num 0, Num 1, Num 0, Num 0, Num 1, Num 1, Num 0]\<rparr>,
        meta = Ref 20\<rparr>),
      \<lparr>heap = (heap_of brep_example)
         (21 := Obj [(''id'', Str ''m2'')],
          20 := Obj [(''id'', Str ''b1''), (''speckle_type'', Str ''Objects.Geometry.Brep'')]),
       trace = []\<rparr>)
   \<and> has_field (heap_of brep_example) (Ref 20) ''displayValue''
   \<and> \<not> has_field ((heap_of brep_example)
         (21 := Obj [(''id'', Str ''m2'')],
          20 := Obj [(''id'', Str ''b1''), (''speckle_type'', Str ''Objects.Geometry.Brep'')]))
        (Ref 20) ''displayValue''"
proof -
  note m = conversion_mutates_source_node [THEN conjunct1, rule_format, OF scene_example_run]
  note b = conversion_mutates_source_node [THEN conjunct2, rule_format, OF brep_example_run]
  have g: "get_prop (heap_of scene_example) (Ref 31) ''again'' = Inr (Ref 32)"
    by (simp add: scene_example_def run_simps)
  have m1: "has_field (heap_of scene_example) (Ref 32) ''vertices''"
    using m [THEN conjunct2, THEN conjunct1] by (simp add: world_of_def)
  have m2: "\<not> has_field ((heap_of scene_example)(32 := Obj [(''id'', Str ''m3'')])) (Ref 32) ''vertices''"
    using m [THEN conjunct2, THEN conjunct2, THEN conjunct2, THEN conjunct1] by simp
  have m3: "\<not> has_field ((heap_of scene_example)(32 := Obj [(''id'', Str ''m3'')])) (Ref 32) ''faces''"
    using m [THEN conjunct2, THEN conjunct2, THEN conjunct2, THEN conjunct2, THEN conjunct1]
    by simp
  have m4: "get_prop ((heap_of scene_example)(32 := Obj [(''id'', Str ''m3'')])) (Ref 31) ''again''
       = Inr (Ref 32)"
    using m [THEN conjunct2, THEN conjunct2, THEN conjunct2, THEN conjunct2, THEN conjunct2,
        THEN conjunct2, rule_format, of "Ref 31" "''again''"] g
    by (simp add: world_of_def)
  have b1: "has_field (heap_of brep_example) (Ref 20) ''displayValue''"
    by (simp add: brep_example_def has_field_def heap_of_def)
  have b2: "\<not> has_field ((heap_of brep_example)
         (21 := Obj [(''id'', Str ''m2'')],
          20 := Obj [(''id'', Str ''b1''), (''speckle_type'', Str ''Objects.Geometry.Brep'')]))
        (Ref 20) ''displayValue''"
    using b [THEN conjunct2, THEN conjunct2, THEN conjunct1, rule_format, of "''displayValue''"]
    by (simp add: brep_fields_def)
  show ?thesis
    by (intro conjI scene_example_run brep_example_run g m1 m2 m3 m4 b1 b2)
qed

section \<open>The chunk reassembler\<close>

text \<open>
  An array whose first element has no truthy \<open>referencedId\<close> is returned as it is, with
  no store access. An array of reference stubs is resolved stub by stub, in element order
  (the lookups appear in the trace in that order), and the result is the concatenation of
  the payloads' data in that order.
\<close>

lemma dechunk_flat_unchanged:
  assumes "first_elem (heap w) arr = Inr x" and "get_prop (heap w) x ''referencedId'' = Inr rid"
    and "\<not> truthy rid"
  shows "dechunk env arr w = (Inr (Same arr), w)"
  using assms by (simp add: dechunk_def)

lemma dechunk_loop_concat:
  assumes "length rids = length refs" and "length frags = length refs"
    and "\<forall>i < length refs. \<exists>realv d.
           get_prop (heap w) (refs ! i) ''referencedId'' = Inr (rids ! i)
         \<and> getObject env (rids ! i) = Inr realv
         \<and> get_prop (heap w) realv ''data'' = Inr d
         \<and> iterate (heap w) d = Inr (frags ! i)"
  shows "dechunk_loop env refs acc w
         = (Inr (acc @ concat frags), w\<lparr>trace := trace w @ map GetObject rids\<rparr>)"
  using assms
proof (induction refs arbitrary: rids frags acc w)
  case Nil
  then show ?case by simp
next
  case (Cons ref refs)
  from Cons.prems(1,2) obtain rid rids' frag frags' where
    eq: "rids = rid # rids'" "frags = frag # frags'"
      "length rids' = length refs" "length frags' = length refs"
    by (cases rids; cases frags) auto
  from Cons.prems(3) [rule_format, of 0] eq obtain realv d where
    hd: "get_prop (heap w) ref ''referencedId'' = Inr rid" "getObject env rid = Inr realv"
      "get_prop (heap w) realv ''data'' = Inr d" "iterate (heap w) d = Inr frag"
    by auto
  have tl: "\<forall>i < length refs. \<exists>realv d.
           get_prop (heap (log (GetObject rid) w)) (refs ! i) ''referencedId'' = Inr (rids' ! i)
         \<and> getObject env (rids' ! i) = Inr realv
         \<and> get_prop (heap (log (GetObject rid) w)) realv ''data'' = Inr d
         \<and> iterate (heap (log (GetObject rid) w)) d = Inr (frags' ! i)"
  proof (intro allI impI)
    fix i assume "i < length refs"
    then show "\<exists>realv d.
           get_prop (heap (log (GetObject rid) w)) (refs ! i) ''referencedId'' = Inr (rids' ! i)
         \<and> getObject env (rids' ! i) = Inr realv
         \<and> get_prop (heap (log (GetObject rid) w)) realv ''data'' = Inr d
         \<and> iterate (heap (log (GetObject rid) w)) d = Inr (frags' ! i)"
      using Cons.prems(3) [rule_format, of "Suc i"] eq by simp
  qed
  have "dechunk_loop env refs (acc @ frag) (log (GetObject rid) w)
      = (Inr ((acc @ frag) @ concat frags'),
         (log (GetObject rid) w)\<lparr>trace := trace (log (GetObject rid) w) @ map GetObject rids'\<rparr>)"
    by (rule Cons.IH [OF eq(3,4) tl])
  then show ?case
    using hd eq by (simp add: log_def)
qed

lemma dechunk_chunked_concat:
  assumes "heap w a = Arr refs" and "refs \<noteq> []"
    and "length rids = length refs" and "length frags = length refs"
    and "\<forall>i < length refs. \<exists>realv d.
           get_prop (heap w) (refs ! i) ''referencedId'' = Inr (rids ! i)
         \<and> getObject env (rids ! i) = Inr realv
         \<and> get_prop (heap w) realv ''data'' = Inr d
         \<and> iterate (heap w) d = Inr (frags ! i)"
    and "truthy (rids ! 0)"
  shows "dechunk env (Ref a) w
         = (Inr (Fresh (concat frags)), w\<lparr>trace := trace w @ map GetObject rids\<rparr>)"
proof -
  have f: "first_elem (heap w) (Ref a) = Inr (refs ! 0)"
    using assms(1,2) by (simp add: first_elem_def elem_at_def)
  have g: "get_prop (heap w) (refs ! 0) ''referencedId'' = Inr (rids ! 0)"
    using assms(2,5) by auto
  have i: "iterate (heap w) (Ref a) = Inr refs"
    using assms(1) by (simp add: iterate_def)
  show ?thesis
    using dechunk_loop_concat [OF assms(3,4,5), of "[]"] assms(6)
    by (simp add: dechunk_def f g i)
qed

text \<open>
  On the empty array \<^verbatim>\<open>arr[0]\<close> is \<^verbatim>\<open>undefined\<close>, and reading its \<open>referencedId\<close> is a
  TypeError: the empty array is not returned.
\<close>

lemma dechunk_empty_array_raises:
  "heap w a = Arr [] \<Longrightarrow> dechunk env (Ref a) w = (Inl TypeError, w)"
  by (simp add: dechunk_def first_elem_def elem_at_def get_prop_def)

text \<open>
  Claim C2, at the empty array. The claim has \<open>dechunk\<close> return an empty array unchanged;
  the code raises a TypeError on it, and so does the conversion of a mesh whose vertex and
  face arrays are empty.
\<close>

theorem dechunk_empty_raises:
  "dechunk empty_store (Ref 40) (world_of [(40, Arr [])]) = (Inl TypeError, world_of [(40, Arr [])])
   \<and> MeshToBufferGeometry empty_store (Ref 41)
         (world_of [(41, Obj [(''vertices'', Ref 42), (''faces'', Ref 42)]), (42, Arr [])])
       = (Inl TypeError,
          world_of [(41, Obj [(''vertices'', Ref 42), (''faces'', Ref 42)]), (42, Arr [])])"
  by (simp add: run_simps MeshToBufferGeometry_def)

section \<open>The Brep converter without a display mesh\<close>

text \<open>
  With neither \<open>displayValue\<close> nor \<open>displayMesh\<close> the argument of \<open>resolveReference\<close> is
  \<^verbatim>\<open>undefined\<close>, and reading its \<open>referencedId\<close> is a TypeError.
\<close>

lemma brep_without_display_raises:
  assumes "truthy obj" and "\<not> has_field (heap w) obj ''displayValue''"
    and "\<not> has_field (heap w) obj ''displayMesh''"
  shows "BrepToBufferGeometry env obj w = (Inl TypeError, w)"
proof -
  have "get_prop (heap w) obj ''displayValue'' = Inr Undefined"
    and "get_prop (heap w) obj ''displayMesh'' = Inr Undefined"
    using assms
    by (cases obj; auto simp: get_prop_def has_field_def lookup_absent split: hobj.splits)+
  then show ?thesis
    using assms(1)
    by (simp add: BrepToBufferGeometry_def js_or_def resolveReference_def get_prop_def)
qed

text \<open>
  Claim C5, at a Brep object that has only a type and an id. The claim has the converter
  return nothing and raise no error; the code raises a TypeError, also when the object is
  reached through \<open>traverseAndConvert\<close>, which has invoked the converter and invokes no
  callback.
\<close>

theorem brep_no_display_raises:
  "BrepToBufferGeometry empty_store (Ref 50)
     (world_of [(50, Obj [(''speckle_type'', Str ''Objects.Geometry.Brep''), (''id'', Str ''b1'')])])
   = (Inl TypeError,
      world_of [(50, Obj [(''speckle_type'', Str ''Objects.Geometry.Brep''), (''id'', Str ''b1'')])])
   \<and> traverseAndConvert empty_store (Ref 50)
     (world_of [(50, Obj [(''speckle_type'', Str ''Objects.Geometry.Brep''), (''id'', Str ''b1'')])])
   = (Inl TypeError,
      log (Invoke ''Brep'' (Ref 50))
        (world_of [(50, Obj [(''speckle_type'', Str ''Objects.Geometry.Brep''), (''id'', Str ''b1'')])]))"
  by (simp add: run_simps traverseAndConvert_def BrepToBufferGeometry_def resolveReference_def
      getSpeckleType_def tag_of_def converter_def isArray_def)

section \<open>Leaves of the traversal\<close>

text \<open>
  A value whose \<^verbatim>\<open>typeof\<close> is not \<^verbatim>\<open>'object'\<close> (\<^verbatim>\<open>undefined\<close>, a boolean, a number, a
  string) is a leaf: the traversal returns at once, starts no task and leaves the world as
  it is.
\<close>

lemma traverse_primitive_leaf:
  "\<not> typeof_object v \<Longrightarrow> traverseAndConvert env v w = (Inr (), w)"
  by (simp add: traverseAndConvert_def)

text \<open>
  Claim C7, at \<^verbatim>\<open>null\<close>. The claim has \<^verbatim>\<open>null\<close> treated as a leaf without an error;
  \<^verbatim>\<open>typeof null\<close> is \<^verbatim>\<open>'object'\<close>, so the code goes on to read \<^verbatim>\<open>null.referencedId\<close>,
  which is a TypeError.
\<close>

theorem traverse_null_raises:
  "traverseAndConvert env Null w = (Inl TypeError, w)"
  by (simp add: traverseAndConvert_def get_prop_def)

section \<open>Progress events of a load session\<close>

text \<open>
  Once the first fragment has been seen the loop only counts: the events it appends are the
  fractions of the running count over the total learned from the first fragment, plus one.
\<close>

lemma load_loop_rest:
  "\<not> first s \<Longrightarrow>
   load_loop oid frags s =
     s\<lparr>current := current s + length frags,
       emitted := emitted s @
         map (\<lambda>i. LoadProgress (of_nat (current s + Suc i) / (of_nat (total_count s) + 1)) oid)
           [0..<length frags]\<rparr>"
proof (induction frags arbitrary: s)
  case Nil
  then show ?case by simp
next
  case (Cons obj rest)
  have nf: "\<not> first (load_step oid obj s)"
    using Cons.prems by (simp add: load_step_def Let_def)
  have shift: "map (\<lambda>i. LoadProgress (of_nat (current s + Suc i) / (of_nat (total_count s) + 1)) oid)
           [0..<Suc (length rest)]
      = LoadProgress (of_nat (current s + 1) / (of_nat (total_count s) + 1)) oid #
        map (\<lambda>i. LoadProgress (of_nat (current s + 1 + Suc i) / (of_nat (total_count s) + 1)) oid)
           [0..<length rest]"
    by (simp only: upt_conv_Cons [of 0, OF zero_less_Suc] list.map map_Suc_upt [symmetric] map_map
        o_def) simp
  show ?case
    using Cons.prems
    by (simp only: load_loop.simps Cons.IH [OF nf] length_Cons shift)
      (simp add: load_step_def Let_def)
qed

lemma load_emitted:
  "emitted (load ses frags) =
     map (\<lambda>i. LoadProgress (of_nat (Suc i) / (of_nat (totalChildrenCount (hd frags)) + 1))
                (objectId ses))
       [0..<length frags]"
proof (cases frags)
  case Nil
  then show ?thesis by (simp add: load_def)
next
  case (Cons obj rest)
  let ?s0 = "\<lparr>first = True, current = 0, total_count = 0, firstObjectPromise = None,
              emitted = []\<rparr>"
  have nf: "\<not> first (load_step (objectId ses) obj ?s0)"
    by (simp add: load_step_def Let_def)
  have shift: "map (\<lambda>i. LoadProgress (of_nat (Suc i) / (of_nat (totalChildrenCount obj) + 1))
                (objectId ses)) [0..<Suc (length rest)]
      = LoadProgress (1 / (of_nat (totalChildrenCount obj) + 1)) (objectId ses) #
        map (\<lambda>i. LoadProgress (of_nat (Suc (Suc i)) / (of_nat (totalChildrenCount obj) + 1))
                (objectId ses)) [0..<length rest]"
    by (simp only: upt_conv_Cons [of 0, OF zero_less_Suc] list.map map_Suc_upt [symmetric] map_map
        o_def) simp
  show ?thesis
    unfolding Cons load_def load_loop.simps load_loop_rest [OF nf] list.sel length_Cons shift
    by (simp add: load_step_def Let_def)
qed

lemma load_first:
  "frags \<noteq> [] \<Longrightarrow>
     total_count (load ses frags) = totalChildrenCount (hd frags)
   \<and> firstObjectPromise (load ses frags) = Some (node (hd frags))"
proof (cases frags)
  case Nil
  assume "frags \<noteq> []"
  with Nil show ?thesis by simp
next
  case (Cons obj rest)
  let ?s0 = "\<lparr>first = True, current = 0, total_count = 0, firstObjectPromise = None,
              emitted = []\<rparr>"
  have nf: "\<not> first (load_step (objectId ses) obj ?s0)"
    by (simp add: load_step_def Let_def)
  show ?thesis
    unfolding Cons load_def load_loop.simps load_loop_rest [OF nf] list.sel
    by (simp add: load_step_def Let_def)
qed

text \<open>
  Claim C4. For every sequence of fragments the loader's iterator yields: each fragment
  causes exactly one \<open>load-progress\<close> event; the total is the count declared by the first
  fragment, on which the traversal is started; the \<open>i\<close>-th event (counting from 1) carries
  the fraction \<open>i / (total + 1)\<close>; the emitted fractions are non-decreasing; the event of
  fragment number \<open>total + 1\<close> carries exactly 1; and the events emitted after the first \<open>k\<close>
  fragments are the first \<open>k\<close> events of the whole session.
\<close>

theorem load_progress_events:
  "length (emitted (load ses frags)) = length frags
   \<and> (frags \<noteq> [] \<longrightarrow>
        total_count (load ses frags) = totalChildrenCount (hd frags)
      \<and> firstObjectPromise (load ses frags) = Some (node (hd frags)))
   \<and> (\<forall>i < length frags.
        emitted (load ses frags) ! i =
          LoadProgress (of_nat (i + 1) / (of_nat (totalChildrenCount (hd frags)) + 1))
            (objectId ses))
   \<and> sorted (map progress (emitted (load ses frags)))
   \<and> (totalChildrenCount (hd frags) < length frags \<longrightarrow>
        progress (emitted (load ses frags) ! totalChildrenCount (hd frags)) = 1)
   \<and> (\<forall>k \<le> length frags. emitted (load ses (take k frags)) = take k (emitted (load ses frags)))"
proof (intro conjI)
  let ?t = "totalChildrenCount (hd frags)"
  let ?ev = "\<lambda>i. LoadProgress (of_nat (Suc i) / (of_nat ?t + 1)) (objectId ses)"
  have em: "emitted (load ses frags) = map ?ev [0..<length frags]"
    by (rule load_emitted)
  show "length (emitted (load ses frags)) = length frags"
    by (simp add: em)
  show "frags \<noteq> [] \<longrightarrow>
        total_count (load ses frags) = totalChildrenCount (hd frags)
      \<and> firstObjectPromise (load ses frags) = Some (node (hd frags))"
    using load_first by blast
  show "\<forall>i < length frags.
        emitted (load ses frags) ! i =
          LoadProgress (of_nat (i + 1) / (of_nat ?t + 1)) (objectId ses)"
    by (simp add: em)
  have pos: "(0::rat) < of_nat ?t + 1"
    by (simp add: add_nonneg_pos)
  have "sorted (map (\<lambda>i. (of_nat (Suc i) :: rat) / (of_nat ?t + 1)) [0..<length frags])"
  proof (rule sorted_map_mono)
    show "sorted [0..<length frags]" by simp
    show "mono_on (set [0..<length frags])
            (\<lambda>i. (of_nat (Suc i) :: rat) / (of_nat (totalChildrenCount (hd frags)) + 1))"
      using pos by (intro mono_onI divide_right_mono) simp_all
  qed
  then show "sorted (map progress (emitted (load ses frags)))"
    by (simp add: em o_def)
  show "?t < length frags \<longrightarrow> progress (emitted (load ses frags) ! ?t) = 1"
    using pos by (simp add: em)
  show "\<forall>k \<le> length frags. emitted (load ses (take k frags)) = take k (emitted (load ses frags))"
  proof (intro allI impI)
    fix k assume k: "k \<le> length frags"
    show "emitted (load ses (take k frags)) = take k (emitted (load ses frags))"
    proof (cases k)
      case 0
      then show ?thesis by (simp add: load_def)
    next
      case (Suc k')
      then have "hd (take k frags) = hd frags"
        using k by (cases frags) auto
      then show ?thesis
        using k by (simp add: load_emitted take_map min_absorb2)
    qed
  qed
qed

theorem load_progress_events_witness:
  "length (emitted (load session_example fragments_example)) = 3
   \<and> total_count (load session_example fragments_example) = 2
   \<and> firstObjectPromise (load session_example fragments_example) = Some (Ref 60)
   \<and> emitted (load session_example fragments_example) ! 0 = LoadProgress (1 / 3) ''f33645dc9a''
   \<and> emitted (load session_example fragments_example) ! 1 = LoadProgress (2 / 3) ''f33645dc9a''
   \<and> progress (emitted (load session_example fragments_example) ! 2) = 1
   \<and> sorted (map progress (emitted (load session_example fragments_example)))
   \<and> emitted (load session_example (take 2 fragments_example))
       = take 2 (emitted (load session_example fragments_example))"
proof -
  note t = load_progress_events [of session_example fragments_example]
  have f: "fragments_example \<noteq> []" "length fragments_example = 3"
    "totalChildrenCount (hd fragments_example) = 2" "node (hd fragments_example) = Ref 60"
    "objectId session_example = ''f33645dc9a''"
    by (simp_all add: fragments_example_def session_example_def)
  have c1: "length (emitted (load session_example fragments_example)) = 3"
    using t [THEN conjunct1] f by simp
  have c2: "total_count (load session_example fragments_example) = 2"
    and c3: "firstObjectPromise (load session_example fragments_example) = Some (Ref 60)"
    using t [THEN conjunct2, THEN conjunct1] f by simp_all
  note nth = t [THEN conjunct2, THEN conjunct2, THEN conjunct1, rule_format]
  have c4: "emitted (load session_example fragments_example) ! 0 = LoadProgress (1 / 3) ''f33645dc9a''"
    using nth [of 0] f by simp
  have c5: "emitted (load session_example fragments_example) ! 1 = LoadProgress (2 / 3) ''f33645dc9a''"
    using nth [of 1] f by simp
  have c6: "progress (emitted (load session_example fragments_example) ! 2) = 1"
    using t [THEN conjunct2, THEN conjunct2, THEN conjunct2, THEN conjunct2, THEN conjunct1] f
    by simp
  have c7: "sorted (map progress (emitted (load session_example fragments_example)))"
    using t [THEN conjunct2, THEN conjunct2, THEN conjunct2, THEN conjunct1] .
  have c8: "emitted (load session_example (take 2 fragments_example))
       = take 2 (emitted (load session_example fragments_example))"
    using t [THEN conjunct2, THEN conjunct2, THEN conjunct2, THEN conjunct2, THEN conjunct2,
        rule_format, of 2] f
    by simp
  show ?thesis
    by (intro conjI c1 c2 c3 c4 c5 c6 c7 c8)
qed

section \<open>The URL check of the session constructor\<close>

text \<open>
  \<open>indexOf\<close> is -1 exactly when the pattern occurs nowhere in the string, and the pieces
  of a path of the shape \<^verbatim>\<open>/streams/<sid>/objects/<oid>\<close> are the empty piece before the
  first slash, \<open>streams\<close>, the stream id, \<open>objects\<close> and the object id.
\<close>

lemma indexOf_from_absent:
  "(indexOf_from s pat i = - 1) = (\<not> (\<exists>pre suf. s = pre @ pat @ suf))"
proof (induction s arbitrary: i)
  case Nil
  then show ?case by auto
next
  case (Cons c cs)
  show ?case
  proof (cases "take (length pat) (c # cs) = pat")
    case True
    then have "c # cs = [] @ pat @ drop (length pat) (c # cs)"
      by (metis append_Nil append_take_drop_id)
    then have "\<exists>pre suf. c # cs = pre @ pat @ suf" by blast
    then show ?thesis using True by simp
  next
    case False
    have "(\<exists>pre suf. c # cs = pre @ pat @ suf) = (\<exists>pre suf. cs = pre @ pat @ suf)"
    proof
      assume "\<exists>pre suf. c # cs = pre @ pat @ suf"
      then obtain pre suf where e: "c # cs = pre @ pat @ suf" by blast
      show "\<exists>pre suf. cs = pre @ pat @ suf"
      proof (cases pre)
        case Nil
        with e have "take (length pat) (c # cs) = pat" by simp
        with False show ?thesis by simp
      next
        case (Cons p pre')
        with e have "cs = pre' @ pat @ suf" by simp
        then show ?thesis by blast
      qed
    next
      assume "\<exists>pre suf. cs = pre @ pat @ suf"
      then obtain pre suf where "cs = pre @ pat @ suf" by blast
      then have "c # cs = (c # pre) @ pat @ suf" by simp
      then show "\<exists>pre suf. c # cs = pre @ pat @ suf" by blast
    qed
    then show ?thesis
      using False Cons.IH [of "Suc i"] by simp
  qed
qed

lemma indexOf_absent:
  "(indexOf s pat = - 1) = (\<not> (\<exists>pre suf. s = pre @ pat @ suf))"
  by (simp add: indexOf_def indexOf_from_absent)

lemma js_split_nonempty: "js_split sep s \<noteq> []"
  by (induction s) (auto split: list.splits)

lemma js_split_no_sep: "sep \<notin> set s \<Longrightarrow> js_split sep s = [s]"
  by (induction s) auto

lemma js_split_append:
  "sep \<notin> set a \<Longrightarrow> js_split sep (a @ sep # rest) = a # js_split sep rest"
  by (induction a) (auto simp: js_split_nonempty split: list.splits)

lemma canonical_segments:
  assumes "CHR ''/'' \<notin> set sid" and "CHR ''/'' \<notin> set oid"
  shows "js_split (CHR ''/'') (''/streams/'' @ sid @ ''/objects/'' @ oid)
         = [[], ''streams'', sid, ''objects'', oid]"
proof -
  have a: "js_split (CHR ''/'') oid = [oid]"
    using assms(2) by (rule js_split_no_sep)
  have b: "js_split (CHR ''/'') (''objects'' @ CHR ''/'' # oid) = [''objects'', oid]"
    using js_split_append [of "CHR ''/''" "''objects''" oid] a by simp
  have c: "js_split (CHR ''/'') (sid @ CHR ''/'' # ''objects'' @ CHR ''/'' # oid)
      = [sid, ''objects'', oid]"
    using js_split_append [OF assms(1), of "''objects'' @ CHR ''/'' # oid"] b by simp
  have d: "js_split (CHR ''/'') (''streams'' @ CHR ''/'' # sid @ CHR ''/'' # ''objects'' @ CHR ''/'' # oid)
      = [''streams'', sid, ''objects'', oid]"
    using js_split_append [of "CHR ''/''" "''streams''"
        "sid @ CHR ''/'' # ''objects'' @ CHR ''/'' # oid"] c
    by simp
  have e: "js_split (CHR ''/'')
        ([] @ CHR ''/'' # ''streams'' @ CHR ''/'' # sid @ CHR ''/'' # ''objects'' @ CHR ''/'' # oid)
      = [[], ''streams'', sid, ''objects'', oid]"
    using js_split_append [of "CHR ''/''" "[]"
        "''streams'' @ CHR ''/'' # sid @ CHR ''/'' # ''objects'' @ CHR ''/'' # oid"] d
    by simp
  have "''/streams/'' @ sid @ ''/objects/'' @ oid
      = [] @ CHR ''/'' # ''streams'' @ CHR ''/'' # sid @ CHR ''/'' # ''objects'' @ CHR ''/'' # oid"
    by simp
  then show ?thesis
    using e by simp
qed

text \<open>
  Claim C8, as amended. Construction raises the URL-format error exactly when the path has
  fewer than five pieces between slashes, or the text \<open>streams\<close> occurs nowhere in the
  path, or the text \<open>objects\<close> occurs nowhere in the path; these are occurrences as
  substrings, not as whole segments. Otherwise it does not raise and takes the origin, the
  third piece as stream id and the fifth piece as object id; for a path of the shape
  \<^verbatim>\<open>/streams/<sid>/objects/<oid>\<close> these are \<open>sid\<close> and \<open>oid\<close>. The check comes before
  the object loader is created, and nothing before it touches the network.
\<close>

theorem session_url_check:
  "ViewerObjectLoader u =
     (if length (js_split (CHR ''/'') (pathname u)) < 5
         \<or> \<not> (\<exists>pre suf. pathname u = pre @ ''streams'' @ suf)
         \<or> \<not> (\<exists>pre suf. pathname u = pre @ ''objects'' @ suf)
      then Inl UnexpectedObjectUrlFormat
      else Inr \<lparr>serverUrl = origin u,
                streamId = js_split (CHR ''/'') (pathname u) ! 2,
                objectId = js_split (CHR ''/'') (pathname u) ! 4\<rparr>)
   \<and> (CHR ''/'' \<notin> set sid \<and> CHR ''/'' \<notin> set oid
        \<and> pathname u = ''/streams/'' @ sid @ ''/objects/'' @ oid \<longrightarrow>
      ViewerObjectLoader u = Inr \<lparr>serverUrl = origin u, streamId = sid, objectId = oid\<rparr>)"
proof (intro conjI impI)
  show main: "ViewerObjectLoader u =
     (if length (js_split (CHR ''/'') (pathname u)) < 5
         \<or> \<not> (\<exists>pre suf. pathname u = pre @ ''streams'' @ suf)
         \<or> \<not> (\<exists>pre suf. pathname u = pre @ ''objects'' @ suf)
      then Inl UnexpectedObjectUrlFormat
      else Inr \<lparr>serverUrl = origin u,
                streamId = js_split (CHR ''/'') (pathname u) ! 2,
                objectId = js_split (CHR ''/'') (pathname u) ! 4\<rparr>)"
    unfolding ViewerObjectLoader_def Let_def indexOf_absent by (rule refl)
  assume a: "CHR ''/'' \<notin> set sid \<and> CHR ''/'' \<notin> set oid
        \<and> pathname u = ''/streams/'' @ sid @ ''/objects/'' @ oid"
  then have seg: "js_split (CHR ''/'') (pathname u) = [[], ''streams'', sid, ''objects'', oid]"
    using canonical_segments [of sid oid] by metis
  have s1: "pathname u = ''/'' @ ''streams'' @ (''/'' @ sid @ ''/objects/'' @ oid)"
    using a by simp
  have s2: "pathname u = (''/streams/'' @ sid @ ''/'') @ ''objects'' @ (''/'' @ oid)"
    using a by simp
  have "\<exists>pre suf. pathname u = pre @ ''streams'' @ suf"
    and "\<exists>pre suf. pathname u = pre @ ''objects'' @ suf"
    using s1 s2 by blast+
  then show "ViewerObjectLoader u = Inr \<lparr>serverUrl = origin u, streamId = sid, objectId = oid\<rparr>"
    unfolding main seg by simp
qed

theorem session_url_check_witness:
  "ViewerObjectLoader
     \<lparr>origin = ''https://staging.speckle.dev'',
      pathname = ''/streams/a75ab4f10f/objects/f33645dc9a''\<rparr>
     = Inr \<lparr>serverUrl = ''https://staging.speckle.dev'', streamId = ''a75ab4f10f'',
            objectId = ''f33645dc9a''\<rparr>
   \<and> ViewerObjectLoader
     \<lparr>origin = ''https://staging.speckle.dev'', pathname = ''/streams/a75ab4f10f''\<rparr>
     = Inl UnexpectedObjectUrlFormat
   \<and> ViewerObjectLoader
     \<lparr>origin = ''https://staging.speckle.dev'', pathname = ''/streams/a75ab4f10f/commits/c1''\<rparr>
     = Inl UnexpectedObjectUrlFormat"
proof -
  let ?good = "\<lparr>origin = ''https://staging.speckle.dev'',
      pathname = ''/streams/a75ab4f10f/objects/f33645dc9a''\<rparr>"
  let ?short = "\<lparr>origin = ''https://staging.speckle.dev'', pathname = ''/streams/a75ab4f10f''\<rparr>"
  let ?other = "\<lparr>origin = ''https://staging.speckle.dev'',
      pathname = ''/streams/a75ab4f10f/commits/c1''\<rparr>"
  have g: "ViewerObjectLoader ?good
     = Inr \<lparr>serverUrl = ''https://staging.speckle.dev'', streamId = ''a75ab4f10f'',
            objectId = ''f33645dc9a''\<rparr>"
    using session_url_check [of ?good "''a75ab4f10f''" "''f33645dc9a''", THEN conjunct2]
    by simp
  have s: "ViewerObjectLoader ?short = Inl UnexpectedObjectUrlFormat"
    using session_url_check [of ?short, THEN conjunct1] by simp
  have "indexOf ''/streams/a75ab4f10f/commits/c1'' ''objects'' = - 1"
    by (simp add: indexOf_def)
  then have no: "\<not> (\<exists>pre suf. pathname ?other = pre @ ''objects'' @ suf)"
    by (simp add: indexOf_absent)
  have o: "ViewerObjectLoader ?other = Inl UnexpectedObjectUrlFormat"
    using session_url_check [of ?other, THEN conjunct1] no by simp
  show ?thesis
    by (intro conjI g s o)
qed

text \<open>
  Claim C8 as stated fails: the path below has neither a segment \<open>streams\<close> nor a segment
  \<open>objects\<close>, and construction does not raise.
\<close>

theorem session_url_check_counterexample:
  "''streams'' \<notin> set (js_split (CHR ''/'') ''/my-streams/s1/my-objects/o1'')
   \<and> ''objects'' \<notin> set (js_split (CHR ''/'') ''/my-streams/s1/my-objects/o1'')
   \<and> ViewerObjectLoader \<lparr>origin = ''https://h.example'', pathname = ''/my-streams/s1/my-objects/o1''\<rparr>
       = Inr \<lparr>serverUrl = ''https://h.example'', streamId = ''s1'', objectId = ''o1''\<rparr>"
  by (simp add: ViewerObjectLoader_def indexOf_def)

section \<open>Dispatch on the type tag\<close>















section \<open>The position attribute\<close>

text \<open>
  What the position attribute stores of a number is its rounding to 32 bits; the product
  of two numbers is a number or an infinity, which the conversion to a number leaves as it
  is.
\<close>

lemma Float32BufferAttribute_length [simp]:
  "length (Float32BufferAttribute env h xs) = length xs"
  by (simp add: Float32BufferAttribute_def)

lemma Float32BufferAttribute_nth:
  "i < length xs \<Longrightarrow> xs ! i = Num x \<Longrightarrow> Float32BufferAttribute env h xs ! i = fround x"
  by (simp add: Float32BufferAttribute_def to_number_def float32_def)

lemma Float32BufferAttribute_nth_number:
  "i < length xs \<Longrightarrow> to_number env h (xs ! i) = xs ! i
   \<Longrightarrow> Float32BufferAttribute env h xs ! i = float32 (xs ! i)"
  by (simp add: Float32BufferAttribute_def)

lemma times_numbers: "js_times env h (Num x) (Num f) = dround (x * f)"
  by (simp add: js_times_def times_number_def to_number_def)

lemma to_number_dround: "to_number env h (dround y) = dround y"
  by (simp add: dround_def round_to_def Let_def to_number_def)

lemma mesh_success_position:
  assumes "MeshToBufferGeometry env obj w = (Inr (Some r), w')"
  shows "\<exists>units vs vertices w1 vertices_xs.
           get_prop (heap w) obj ''units'' = Inr units
         \<and> get_prop (heap w) obj ''vertices'' = Inr vs
         \<and> dechunk env vs w = (Inr vertices, w1)
         \<and> elements (heap w) vertices = Some vertices_xs
         \<and> position (bufferGeometry r) =
             Float32BufferAttribute env (heap w)
               (if getConversionFactor env units = Num 1 then vertices_xs
                else map (\<lambda>v. js_times env (heap w) v (getConversionFactor env units)) vertices_xs)"
proof -
  from assms obtain units vs vertices w1 fs faces w2 vertices_xs where
    m: "get_prop (heap w) obj ''units'' = Inr units"
      "get_prop (heap w) obj ''vertices'' = Inr vs"
      "dechunk env vs w = (Inr vertices, w1)"
      "dechunk env fs w1 = (Inr faces, w2)"
      "elements (heap w2) vertices = Some vertices_xs"
      "position (bufferGeometry r) =
             Float32BufferAttribute env (heap w2)
               (if getConversionFactor env units = Num 1 then vertices_xs
                else map (\<lambda>v. js_times env (heap w2) v (getConversionFactor env units)) vertices_xs)"
    by (auto simp: MeshToBufferGeometry_def Let_def
        split: if_splits sum.splits prod.splits option.splits)
  have "heap w1 = heap w" and "heap w2 = heap w1"
    using m(3,4) by (auto dest: dechunk_heap)
  then have "heap w2 = heap w" by simp
  with m show ?thesis by auto
qed

lemma scaled_example_run:
  "MeshToBufferGeometry scaling_store (Ref 10) (world_of mesh_example)
   = (Inr (Some \<lparr>bufferGeometry =
          \<lparr>index = [Num 0, Num 1, Num 2, Num 0, Num 2, Num 3],
           position = [Num 0, Num 0, Num 0, Num (1 / 2), Num 0, Num 0,
                       Num (1 / 2), Num (1 / 2), Num 0,
                       Num 0, Num (1 / 2), Num 0]\<rparr>,
        meta = Ref 10\<rparr>),
      \<lparr>heap = (heap_of mesh_example)
         (10 := Obj [(''id'', Str ''m1''), (''speckle_type'', Str ''Objects.Geometry.Mesh''),
                     (''units'', Str ''m'')]),
       trace = []\<rparr>)"
  by (simp add: MeshToBufferGeometry_def mesh_example_def scaling_store_def run_simps
      faces_loop_spec)

lemma float32_precise: "float32 (Num (1073741825 / 1073741824)) = Num 1"
  by (simp add: float32_def fround_precise)

lemma precise_example_run:
  "MeshToBufferGeometry empty_store (Ref 80) (world_of precise_example)
   = (Inr (Some \<lparr>bufferGeometry =
          \<lparr>index = [Num 0, Num 0, Num 0], position = [Num 1, Num 0, Num 0]\<rparr>,
        meta = Ref 80\<rparr>),
      \<lparr>heap = (heap_of precise_example)(80 := Obj [(''id'', Str ''m4''), (''units'', Str ''m'')]),
       trace = []\<rparr>)"
  by (simp add: MeshToBufferGeometry_def precise_example_def run_simps faces_loop_spec
      float32_precise)

text \<open>
  Claim C9, as amended. For every successful Mesh conversion, with \<open>vertices_xs\<close> the
  dechunked vertex values, there are as many stored position values as vertex values. If
  the conversion factor of the declared unit is exactly 1, the array handed to the
  position attribute is \<open>vertices_xs\<close> itself, with no multiplication; the stored value at
  a vertex value that is a number is the rounding of that number to 32 bits, so it is the
  input value exactly when the input value is a 32-bit float. For any other factor, the
  array handed to the position attribute holds the products of the vertex values and the
  factor; where the vertex value and the factor are numbers, the stored value is their
  product, rounded to 64 bits by the multiplication and then to 32 bits by the storage.
\<close>

theorem position_attribute_scaling:
  "MeshToBufferGeometry env obj w = (Inr (Some r), w') \<longrightarrow>
     (\<exists>units vs vertices w1 vertices_xs.
         get_prop (heap w) obj ''units'' = Inr units
       \<and> get_prop (heap w) obj ''vertices'' = Inr vs
       \<and> dechunk env vs w = (Inr vertices, w1)
       \<and> elements (heap w) vertices = Some vertices_xs
       \<and> length (position (bufferGeometry r)) = length vertices_xs
       \<and> (getConversionFactor env units = Num 1 \<longrightarrow>
            position (bufferGeometry r) = Float32BufferAttribute env (heap w) vertices_xs
          \<and> (\<forall>i x. i < length vertices_xs \<and> vertices_xs ! i = Num x \<longrightarrow>
                position (bufferGeometry r) ! i = fround x
              \<and> (position (bufferGeometry r) ! i = vertices_xs ! i) = (fround x = Num x)))
       \<and> (getConversionFactor env units \<noteq> Num 1 \<longrightarrow>
            position (bufferGeometry r) =
              Float32BufferAttribute env (heap w)
                (map (\<lambda>v. js_times env (heap w) v (getConversionFactor env units)) vertices_xs)
          \<and> (\<forall>i x f. i < length vertices_xs \<and> vertices_xs ! i = Num x
                  \<and> getConversionFactor env units = Num f \<longrightarrow>
                position (bufferGeometry r) ! i = float32 (dround (x * f)))))"
proof
  assume a: "MeshToBufferGeometry env obj w = (Inr (Some r), w')"
  from mesh_success_position [OF a] obtain units vs vertices w1 vertices_xs where
    m: "get_prop (heap w) obj ''units'' = Inr units"
      "get_prop (heap w) obj ''vertices'' = Inr vs"
      "dechunk env vs w = (Inr vertices, w1)"
      "elements (heap w) vertices = Some vertices_xs"
      "position (bufferGeometry r) =
             Float32BufferAttribute env (heap w)
               (if getConversionFactor env units = Num 1 then vertices_xs
                else map (\<lambda>v. js_times env (heap w) v (getConversionFactor env units)) vertices_xs)"
    by blast
  let ?cf = "getConversionFactor env units"
  let ?pos = "position (bufferGeometry r)"
  have len: "length ?pos = length vertices_xs"
    using m(5) by simp
  have stored: "?pos ! i = fround x \<and> (?pos ! i = vertices_xs ! i) = (fround x = Num x)"
    if "?cf = Num 1" and "i < length vertices_xs" and "vertices_xs ! i = Num x" for i x
  proof -
    have "?pos ! i = fround x"
      using m(5) that by (simp add: Float32BufferAttribute_nth)
    then show ?thesis
      using that(3) by simp
  qed
  have one: "?cf = Num 1 \<longrightarrow>
            ?pos = Float32BufferAttribute env (heap w) vertices_xs
          \<and> (\<forall>i x. i < length vertices_xs \<and> vertices_xs ! i = Num x \<longrightarrow>
                ?pos ! i = fround x \<and> (?pos ! i = vertices_xs ! i) = (fround x = Num x))"
    using m(5) stored by simp
  have scaled: "?pos ! i = float32 (dround (x * f))"
    if "?cf \<noteq> Num 1" and "i < length vertices_xs" and "vertices_xs ! i = Num x" and "?cf = Num f"
    for i x f
  proof -
    let ?ys = "map (\<lambda>v. js_times env (heap w) v ?cf) vertices_xs"
    have y: "?ys ! i = dround (x * f)"
      using that by (simp add: times_numbers)
    have "Float32BufferAttribute env (heap w) ?ys ! i = float32 (?ys ! i)"
      using that(2) unfolding y
      by (intro Float32BufferAttribute_nth_number [of i ?ys env "heap w", unfolded y])
         (simp_all add: to_number_dround)
    then show ?thesis
      using m(5) that(1) y by simp
  qed
  have other: "?cf \<noteq> Num 1 \<longrightarrow>
            ?pos = Float32BufferAttribute env (heap w) (map (\<lambda>v. js_times env (heap w) v ?cf) vertices_xs)
          \<and> (\<forall>i x f. i < length vertices_xs \<and> vertices_xs ! i = Num x \<and> ?cf = Num f \<longrightarrow>
                ?pos ! i = float32 (dround (x * f)))"
    using m(5) scaled by simp
  show "\<exists>units vs vertices w1 vertices_xs.
         get_prop (heap w) obj ''units'' = Inr units
       \<and> get_prop (heap w) obj ''vertices'' = Inr vs
       \<and> dechunk env vs w = (Inr vertices, w1)
       \<and> elements (heap w) vertices = Some vertices_xs
       \<and> length (position (bufferGeometry r)) = length vertices_xs
       \<and> (getConversionFactor env units = Num 1 \<longrightarrow>
            position (bufferGeometry r) = Float32BufferAttribute env (heap w) vertices_xs
          \<and> (\<forall>i x. i < length vertices_xs \<and> vertices_xs ! i = Num x \<longrightarrow>
                position (bufferGeometry r) ! i = fround x
              \<and> (position (bufferGeometry r) ! i = vertices_xs ! i) = (fround x = Num x)))
       \<and> (getConversionFactor env units \<noteq> Num 1 \<longrightarrow>
            position (bufferGeometry r) =
              Float32BufferAttribute env (heap w)
                (map (\<lambda>v. js_times env (heap w) v (getConversionFactor env units)) vertices_xs)
          \<and> (\<forall>i x f. i < length vertices_xs \<and> vertices_xs ! i = Num x
                  \<and> getConversionFactor env units = Num f \<longrightarrow>
                position (bufferGeometry r) ! i = float32 (dround (x * f))))"
    using m(1-4) len one other by blast
qed

theorem position_attribute_scaling_witness:
  "elements (heap (world_of mesh_example)) (Same (Ref 11))
     = Some [Num 0, Num 0, Num 0, Num 1, Num 0, Num 0, Num 1, Num 1, Num 0, Num 0, Num 1, Num 0]
   \<and> MeshToBufferGeometry empty_store (Ref 10) (world_of mesh_example)
     = (Inr (Some \<lparr>bufferGeometry =
          \<lparr>index = [Num 0, Num 1, Num 2, Num 0, Num 2, Num 3],
           position = [Num 0, Num 0, Num 0, Num 1, Num 0, Num 0, Num 1, Num 1, Num 0,
                       Num 0, Num 1, Num 0]\<rparr>,
        meta = Ref 10\<rparr>),
      \<lparr>heap = (heap_of mesh_example)
         (10 := Obj [(''id'', Str ''m1''), (''speckle_type'', Str ''Objects.Geometry.Mesh''),
                     (''units'', Str ''m'')]),
       trace = []\<rparr>)
   \<and> fround 1 = Num 1
   \<and> MeshToBufferGeometry scaling_store (Ref 10) (world_of mesh_example)
     = (Inr (Some \<lparr>bufferGeometry =
          \<lparr>index = [Num 0, Num 1, Num 2, Num 0, Num 2, Num 3],
           position = Float32BufferAttribute scaling_store (heap (world_of mesh_example))
                       (map (\<lambda>v. js_times scaling_store (heap (world_of mesh_example)) v (Num (1 / 2)))
                          [Num 0, Num 0, Num 0, Num 1, Num 0, Num 0, Num 1, Num 1, Num 0,
                           Num 0, Num 1, Num 0])\<rparr>,
        meta = Ref 10\<rparr>),
      \<lparr>heap = (heap_of mesh_example)
         (10 := Obj [(''id'', Str ''m1''), (''speckle_type'', Str ''Objects.Geometry.Mesh''),
                     (''units'', Str ''m'')]),
       trace = []\<rparr>)
   \<and> float32 (dround (1 / 2)) = Num (1 / 2)"
proof -
  let ?W = "world_of mesh_example"
  let ?xs = "[Num 0, Num 0, Num 0, Num 1, Num 0, Num 0, Num 1, Num 1, Num 0, Num 0, Num 1, Num 0]"
  let ?r1 = "\<lparr>bufferGeometry =
          \<lparr>index = [Num 0, Num 1, Num 2, Num 0, Num 2, Num 3], position = ?xs\<rparr>,
        meta = Ref 10\<rparr>"
  let ?r2 = "\<lparr>bufferGeometry =
          \<lparr>index = [Num 0, Num 1, Num 2, Num 0, Num 2, Num 3],
           position = [Num 0, Num 0, Num 0, Num (1 / 2), Num 0, Num 0,
                       Num (1 / 2), Num (1 / 2), Num 0,
                       Num 0, Num (1 / 2), Num 0]\<rparr>,
        meta = Ref 10\<rparr>"
  let ?W' = "\<lparr>heap = (heap_of mesh_example)
         (10 := Obj [(''id'', Str ''m1''), (''speckle_type'', Str ''Objects.Geometry.Mesh''),
                     (''units'', Str ''m'')]),
       trace = []\<rparr>"
  have g: "get_prop (heap ?W) (Ref 10) ''units'' = Inr (Str ''m'')"
    "get_prop (heap ?W) (Ref 10) ''vertices'' = Inr (Ref 11)"
    by (simp_all add: mesh_example_def run_simps)
  have d: "dechunk empty_store (Ref 11) ?W = (Inr (Same (Ref 11)), ?W)"
    "dechunk scaling_store (Ref 11) ?W = (Inr (Same (Ref 11)), ?W)"
    by (simp_all add: mesh_example_def run_simps)
  have e: "elements (heap ?W) (Same (Ref 11)) = Some ?xs"
    by (simp add: mesh_example_def run_simps)
  have f: "getConversionFactor empty_store (Str ''m'') = Num 1"
    "getConversionFactor scaling_store (Str ''m'') = Num (1 / 2)"
    by (simp_all add: empty_store_def scaling_store_def)
  from position_attribute_scaling [rule_format, OF mesh_example_run]
  obtain units vs vertices w1 vertices_xs where
    u: "get_prop (heap ?W) (Ref 10) ''units'' = Inr units"
      "get_prop (heap ?W) (Ref 10) ''vertices'' = Inr vs"
      "dechunk empty_store vs ?W = (Inr vertices, w1)"
      "elements (heap ?W) vertices = Some vertices_xs"
      "getConversionFactor empty_store units = Num 1 \<longrightarrow>
         (\<forall>i x. i < length vertices_xs \<and> vertices_xs ! i = Num x \<longrightarrow>
             position (bufferGeometry ?r1) ! i = fround x
           \<and> (position (bufferGeometry ?r1) ! i = vertices_xs ! i) = (fround x = Num x))"
    by blast
  from u(1) g(1) have u1: "units = Str ''m''" by simp
  from u(2) g(2) have "vs = Ref 11" by simp
  with u(3) d(1) have "vertices = Same (Ref 11)" by simp
  with u(4) e have xs: "vertices_xs = ?xs" by simp
  from u(5) u1 f(1) have each: "\<forall>i x. i < length vertices_xs \<and> vertices_xs ! i = Num x \<longrightarrow>
             position (bufferGeometry ?r1) ! i = fround x
           \<and> (position (bufferGeometry ?r1) ! i = vertices_xs ! i) = (fround x = Num x)"
    by simp
  have "3 < length vertices_xs \<and> vertices_xs ! 3 = Num 1"
    using xs by simp
  from each [rule_format, OF this] have "position (bufferGeometry ?r1) ! 3 = fround 1"
    by (rule conjunct1)
  then have "fround 1 = position (bufferGeometry ?r1) ! 3"
    by (rule sym)
  also have "\<dots> = Num 1"
    by simp
  finally have r1: "fround 1 = Num 1" .
  from position_attribute_scaling [rule_format, OF scaled_example_run]
  obtain units' vs' vertices' w1' vertices_xs' where
    s: "get_prop (heap ?W) (Ref 10) ''units'' = Inr units'"
      "get_prop (heap ?W) (Ref 10) ''vertices'' = Inr vs'"
      "dechunk scaling_store vs' ?W = (Inr vertices', w1')"
      "elements (heap ?W) vertices' = Some vertices_xs'"
      "getConversionFactor scaling_store units' \<noteq> Num 1 \<longrightarrow>
         position (bufferGeometry ?r2) =
           Float32BufferAttribute scaling_store (heap ?W)
             (map (\<lambda>v. js_times scaling_store (heap ?W) v (getConversionFactor scaling_store units'))
                vertices_xs')
       \<and> (\<forall>i x f. i < length vertices_xs' \<and> vertices_xs' ! i = Num x
               \<and> getConversionFactor scaling_store units' = Num f \<longrightarrow>
             position (bufferGeometry ?r2) ! i = float32 (dround (x * f)))"
    by blast
  from s(1) g(1) have u': "units' = Str ''m''" by simp
  from s(2) g(2) have "vs' = Ref 11" by simp
  with s(3) d(2) have "vertices' = Same (Ref 11)" by simp
  with s(4) e have xs': "vertices_xs' = ?xs" by simp
  have ne: "Num (1 / 2) \<noteq> Num 1"
    by simp
  note half = s(5) [unfolded u' f(2) xs', THEN mp, OF ne]
  note prod = half [THEN conjunct1]
  note each' = half [THEN conjunct2]
  have "3 < length ?xs \<and> ?xs ! 3 = Num 1 \<and> Num (1 / 2) = Num (1 / 2)"
    by simp
  from each' [rule_format, OF this]
  have "float32 (dround (1 * (1 / 2))) = position (bufferGeometry ?r2) ! 3"
    by (rule sym)
  also have "\<dots> = Num (1 / 2)"
    by simp
  finally have "float32 (dround (1 * (1 / 2))) = Num (1 / 2)" .
  then have r2: "float32 (dround (1 / 2)) = Num (1 / 2)"
    by (simp only: mult_1)
  have other: "MeshToBufferGeometry scaling_store (Ref 10) ?W
     = (Inr (Some \<lparr>bufferGeometry =
          \<lparr>index = [Num 0, Num 1, Num 2, Num 0, Num 2, Num 3],
           position = Float32BufferAttribute scaling_store (heap ?W)
                        (map (\<lambda>v. js_times scaling_store (heap ?W) v (Num (1 / 2))) ?xs)\<rparr>,
        meta = Ref 10\<rparr>), ?W')"
    unfolding prod [symmetric] by (simp add: scaled_example_run)
  show ?thesis
    using e mesh_example_run r1 other r2 by blast
qed

text \<open>
  Claim C9 as stated fails: the unit of the mesh below has the conversion factor 1, and its
  first vertex value \<open>1 + 2^(-30)\<close> is stored as \<open>1\<close>.
\<close>

theorem position_attribute_scaling_counterexample:
  "get_prop (heap (world_of precise_example)) (Ref 80) ''units'' = Inr (Str ''m'')
   \<and> getConversionFactor empty_store (Str ''m'') = Num 1
   \<and> get_prop (heap (world_of precise_example)) (Ref 80) ''vertices'' = Inr (Ref 81)
   \<and> dechunk empty_store (Ref 81) (world_of precise_example)
       = (Inr (Same (Ref 81)), world_of precise_example)
   \<and> elements (heap (world_of precise_example)) (Same (Ref 81))
       = Some [Num (1073741825 / 1073741824), Num 0, Num 0]
   \<and> MeshToBufferGeometry empty_store (Ref 80) (world_of precise_example)
       = (Inr (Some \<lparr>bufferGeometry =
            \<lparr>index = [Num 0, Num 0, Num 0], position = [Num 1, Num 0, Num 0]\<rparr>,
          meta = Ref 80\<rparr>),
        \<lparr>heap = (heap_of precise_example)(80 := Obj [(''id'', Str ''m4''), (''units'', Str ''m'')]),
         trace = []\<rparr>)
   \<and> [Num 1, Num 0, Num 0] \<noteq> [Num (1073741825 / 1073741824), Num 0, Num 0]"
proof -
  have pre: "get_prop (heap (world_of precise_example)) (Ref 80) ''units'' = Inr (Str ''m'')
   \<and> getConversionFactor empty_store (Str ''m'') = Num 1
   \<and> get_prop (heap (world_of precise_example)) (Ref 80) ''vertices'' = Inr (Ref 81)
   \<and> dechunk empty_store (Ref 81) (world_of precise_example)
       = (Inr (Same (Ref 81)), world_of precise_example)
   \<and> elements (heap (world_of precise_example)) (Same (Ref 81))
       = Some [Num (1073741825 / 1073741824), Num 0, Num 0]"
    by (simp add: precise_example_def run_simps)
  have ne: "[Num 1, Num 0, Num 0] \<noteq> [Num (1073741825 / 1073741824), Num 0, Num 0]"
    by simp
  show ?thesis
    using pre precise_example_run ne by blast
qed

end
